theory Spec2Isabelle
  imports Complex_Main "HOL-Library.AList" "HOL-Library.Char_ord" "HOL-Library.List_Lexorder"
begin

section \<open>Outcomes of a check body\<close>

text \<open>
  A check body is a Python generator of \<open>(status, message)\<close> pairs. The statuses are the
  ones the sources import from \<open>fontbakery.status\<close> (\<open>PASS\<close>, \<open>FAIL\<close>, \<open>WARN\<close>,
  \<open>SKIP\<close>) together with the ones only the specification names (\<open>ERROR\<close>, \<open>INFO\<close>,
  \<open>DEBUG\<close>).
\<close>

datatype status = DEBUG | INFO | PASS | SKIP | WARN | FAIL | ERROR

section \<open>The \<open>vmetrics\<close> condition (metrics.py)\<close>

text \<open>
  The dictionary \<open>{"ymin": 0, "ymax": 0}\<close> has two fixed keys and is a record here.
  \<open>get_bounding_box\<close> comes from \<open>fontbakery.utils\<close>, which is not part of the sources:
  it is a parameter giving the pair \<open>(font_ymin, font_ymax)\<close> of a font. The \<open>for\<close> loop
  over \<open>collection.ttFonts\<close> is the recursion of \<open>vmetrics_loop\<close>.
\<close>

record v_metrics =
  ymin :: int
  ymax :: int

fun vmetrics_loop :: "('font \<Rightarrow> int \<times> int) \<Rightarrow> 'font list \<Rightarrow> v_metrics \<Rightarrow> v_metrics" where
  "vmetrics_loop get_bounding_box [] vm = vm"
| "vmetrics_loop get_bounding_box (ttFont # rest) vm =
     (let (font_ymin, font_ymax) = get_bounding_box ttFont
      in vmetrics_loop get_bounding_box rest
           (vm\<lparr>ymin := min font_ymin (ymin vm), ymax := max font_ymax (ymax vm)\<rparr>))"

definition vmetrics :: "('font \<Rightarrow> int \<times> int) \<Rightarrow> 'font list \<Rightarrow> v_metrics" where
  "vmetrics get_bounding_box ttFonts =
     vmetrics_loop get_bounding_box ttFonts \<lparr>ymin = 0, ymax = 0\<rparr>"

section \<open>The verdict of a check\<close>

text \<open>
  Modelled from the spec: the check runner that derives the overall verdict of a
  (check, entity) pair is not among the source files. Section 4.3 of the specification
  orders the severities \<open>ERROR > FAIL > WARN > SKIP > PASS > INFO/DEBUG\<close>
  (\<open>severity_rank\<close>), takes the highest-severity emission as the verdict, and makes a
  check that emits nothing, or only informational severities, an engine \<open>ERROR\<close>.
\<close>

fun severity_rank :: "status \<Rightarrow> nat" where
  "severity_rank ERROR = 5"
| "severity_rank FAIL = 4"
| "severity_rank WARN = 3"
| "severity_rank SKIP = 2"
| "severity_rank PASS = 1"
| "severity_rank INFO = 0"
| "severity_rank DEBUG = 0"

definition informational :: "status \<Rightarrow> bool" where
  "informational s = (severity_rank s = 0)"

fun higher :: "status \<Rightarrow> status \<Rightarrow> status" where
  "higher a b = (if severity_rank a < severity_rank b then b else a)"

fun highest_severity :: "status \<Rightarrow> status list \<Rightarrow> status" where
  "highest_severity best [] = best"
| "highest_severity best (s # rest) = highest_severity (higher best s) rest"

definition verdict :: "status list \<Rightarrow> status" where
  "verdict emitted =
     (case filter (\<lambda>s. \<not> informational s) emitted of
        [] \<Rightarrow> ERROR
      | s # rest \<Rightarrow> highest_severity s rest)"

section \<open>Messages, exceptions and runs of a check body\<close>

text \<open>
  A message is \<open>Message(code, text)\<close> or a bare text. The human text of the sources is
  an f-string: it is kept as the list of its literal pieces and interpolated values
  (\<open>frag\<close>), so that no number formatting has to be modelled. \<open>bullet_list\<close> and
  \<open>pretty_print_list\<close> come from \<open>fontbakery.utils\<close>, which is not part of the
  sources: \<open>Bullets\<close> and \<open>Pretty\<close> stand for their results on the given arguments (the
  configuration, the \<open>bullet\<close> keyword argument where the call gives one, the items).
\<close>

type_synonym config = "(string \<times> string) list"

datatype frag =
    Lit string
  | Str string
  | Opt "string option"
  | Num int
  | Opt_num "int option"
  | Hex int
  | Val real
  | Bullets config "string option" "frag list list"
  | Pretty config "string list"
  | Widths "(int \<times> string list) list"

datatype message = Message string "frag list" | Plain "frag list"

fun msg_code :: "message \<Rightarrow> string option" where
  "msg_code (Message c t) = Some c"
| "msg_code (Plain t) = None"

type_synonym outcome = "status \<times> message"

text \<open>
  A generator either runs to its end or stops at an uncaught exception. A run is the
  list of outcomes it yielded together with the exception that ended it, if any.
\<close>

datatype py_error =
    KeyError | IndexError | TypeError | ValueError | AttributeError
  | ZeroDivisionError | RecursionError | UnicodeError

type_synonym run = "outcome list \<times> py_error option"

abbreviation outcomes_of :: "run \<Rightarrow> outcome list" where
  "outcomes_of r \<equiv> fst r"

abbreviation error_of :: "run \<Rightarrow> py_error option" where
  "error_of r \<equiv> snd r"

section \<open>Decoded CFF data\<close>

text \<open>
  A charstring program, once decompiled, is a list of operator names (\<open>str\<close>), numbers
  (\<open>int\<close> or \<open>float\<close>) and hint mask bytes. \<open>decompile_raises\<close> says that
  \<open>decompile()\<close> raises \<open>RecursionError\<close> on this charstring; \<open>program\<close> is the
  attribute \<open>program\<close> as the analysis finds it after \<open>decompile()\<close> (\<open>None\<close> for a
  charstring that was never decompiled). In a top dictionary, \<open>CharStrings\<close> lists for
  each glyph name what \<open>getItemAndSelector\<close> returns; \<open>rawDict\<close>, \<open>FDArray\<close>, \<open>Private\<close>
  and \<open>Subrs\<close> are \<open>None\<close> when the object has no such attribute.
\<close>

datatype token = Operator string | IntNum int | RealNum real | MaskBytes string

record charstring =
  decompile_raises :: bool
  program :: "token list option"

record private_dict =
  Subrs :: "charstring list option"

record font_dict =
  fd_Private :: "private_dict option"

record top_dict =
  CharStrings :: "(string \<times> charstring \<times> int option) list"
  GlobalSubrs :: "charstring list"
  rawDict :: "(string \<times> string) list option"
  FDArray :: "font_dict list option"
  td_Private :: "private_dict option"

text \<open>
  \<open>ttFont["CFF "].cff\<close>: the access raises \<open>UnicodeDecodeError\<close> (\<open>CFF_undecodable\<close>) or
  gives the font set with its \<open>topDictIndex\<close>.
\<close>

datatype cff_table = CFF_undecodable | CFF_set "top_dict list"

section \<open>Decoded fonts\<close>

text \<open>
  The font-parsing library is outside the sources. A \<open>TTFont\<close> object is modelled by
  what the sources read from it: the tables \<open>OS/2\<close>, \<open>hhea\<close>, \<open>head\<close>, \<open>name\<close>,
  \<open>CFF\<close> and \<open>CFF2\<close> (\<open>None\<close> when \<open>tag not in ttFont\<close>, so that \<open>ttFont[tag]\<close> raises \<open>KeyError\<close>), the tags
  of its other tables, the glyph set in the order of \<open>getGlyphSet().keys()\<close>, and
  \<open>getBestCmap()\<close>. For a glyph, \<open>width\<close> is its advance width and \<open>pen_bounds\<close> is
  what a fresh \<open>BoundsPen\<close> holds in \<open>bounds\<close> after \<open>draw\<close>: \<open>(xMin, yMin, xMax, yMax)\<close>,
  or \<open>None\<close> when the glyph draws no point.

  The comments of metrics.py and cff.py say that \<open>draw\<close> and \<open>decompile\<close> modify the font
  object they work on. The fields \<open>drawn\<close> and \<open>decompiled\<close> hold that state: the
  glyph names drawn, and the charstrings decompiled, in this object so far.
\<close>

record os2_table =
  version :: int
  sTypoAscender :: int
  sTypoDescender :: int
  sTypoLineGap :: int
  usWinAscent :: int
  usWinDescent :: int
  sxHeight :: int
  sCapHeight :: int

record hhea_table =
  ascent :: int
  descent :: int
  lineGap :: int

record head_table =
  unitsPerEm :: int

record name_table =
  getBestFullName :: "string option"

record glyph =
  width :: int
  pen_bounds :: "(real \<times> real \<times> real \<times> real) option"

record TTFont =
  file_name :: string
  tbl_OS2 :: "os2_table option"
  tbl_hhea :: "hhea_table option"
  tbl_head :: "head_table option"
  tbl_name :: "name_table option"
  tbl_CFF :: "cff_table option"
  tbl_CFF2 :: "cff_table option"
  other_tables :: "string list"
  getGlyphSet :: "(string \<times> glyph) list"
  getBestCmap :: "(int \<times> string) list option"
  drawn :: "string list"
  decompiled :: "string list"

text \<open>\<open>tag in ttFont\<close> and \<open>ttFont.keys()\<close>.\<close>

definition has_table :: "TTFont \<Rightarrow> string \<Rightarrow> bool" where
  "has_table ttFont tag =
     (if tag = ''OS/2'' then tbl_OS2 ttFont \<noteq> None
      else if tag = ''hhea'' then tbl_hhea ttFont \<noteq> None
      else if tag = ''head'' then tbl_head ttFont \<noteq> None
      else if tag = ''name'' then tbl_name ttFont \<noteq> None
      else if tag = ''CFF '' then tbl_CFF ttFont \<noteq> None
      else if tag = ''CFF2'' then tbl_CFF2 ttFont \<noteq> None
      else tag \<in> set (other_tables ttFont))"

definition keys :: "TTFont \<Rightarrow> string set" where
  "keys ttFont = {tag. has_table ttFont tag}"

text \<open>\<open>os.path.basename\<close>: what follows the last slash.\<close>

definition basename :: "string \<Rightarrow> string" where
  "basename p = rev (takeWhile (\<lambda>c. c \<noteq> CHR ''/'') (rev p))"

section \<open>The heap of font objects\<close>

text \<open>
  Font objects live at addresses; an entity shares the address of its \<open>TTFont\<close> with
  every check and condition. \<open>deepcopy\<close> allocates a new object with the same content.
  \<open>draw h a g\<close> is \<open>glyphset[g].draw(pen)\<close> for the glyph set of the object at \<open>a\<close>: a
  \<open>KeyError\<close> when the glyph is absent, otherwise the bounds the pen reports and the heap
  in which the object at \<open>a\<close> has been modified.
\<close>

record heap =
  objs :: "nat \<Rightarrow> TTFont"
  next_addr :: nat

definition deepcopy :: "heap \<Rightarrow> nat \<Rightarrow> nat \<times> heap" where
  "deepcopy h a =
     (next_addr h,
      h\<lparr>objs := (objs h)(next_addr h := objs h a), next_addr := Suc (next_addr h)\<rparr>)"

definition draw ::
  "heap \<Rightarrow> nat \<Rightarrow> string \<Rightarrow> (py_error + (real \<times> real \<times> real \<times> real) option) \<times> heap" where
  "draw h a glyphname =
     (case map_of (getGlyphSet (objs h a)) glyphname of
        None \<Rightarrow> (Inl KeyError, h)
      | Some g \<Rightarrow>
          (Inr (pen_bounds g),
           h\<lparr>objs := (objs h)(a := (objs h a)\<lparr>drawn := drawn (objs h a) @ [glyphname]\<rparr>)\<rparr>))"

section \<open>metrics.py\<close>

subsection \<open>\<open>check_family_win_ascent_and_descent\<close>\<close>

definition check_family_win_ascent_and_descent :: "TTFont \<Rightarrow> v_metrics \<Rightarrow> run" where
  "check_family_win_ascent_and_descent ttFont vm =
     (case tbl_OS2 ttFont of
        None \<Rightarrow> ([(FAIL, Message ''lacks-OS/2'' [Lit ''Font file lacks OS/2 table''])], None)
      | Some os2_table \<Rightarrow>
          (let win_ascent = usWinAscent os2_table;
               win_descent = usWinDescent os2_table;
               y_max = ymax vm;
               y_min = ymin vm;
               out1 = (if win_ascent < y_max
                       then [(FAIL, Message ''ascent''
                               [Lit ''OS/2.usWinAscent value should be equal or greater than '',
                                Num y_max, Lit '', but got '', Num win_ascent, Lit '' instead''])]
                       else []);
               out2 = (if win_ascent > y_max * 2
                       then [(FAIL, Message ''ascent''
                               [Lit ''OS/2.usWinAscent value '', Num win_ascent,
                                Lit '' is too large. It should be less than double the yMax. Current yMax value is '',
                                Num y_max])]
                       else []);
               out3 = (if win_descent < \<bar>y_min\<bar>
                       then [(FAIL, Message ''descent''
                               [Lit ''OS/2.usWinDescent value should be equal or greater than '',
                                Num \<bar>y_min\<bar>, Lit '', but got '', Num win_descent, Lit '' instead''])]
                       else []);
               out4 = (if win_descent > \<bar>y_min\<bar> * 2
                       then [(FAIL, Message ''descent''
                               [Lit ''OS/2.usWinDescent value '', Num win_descent,
                                Lit '' is too large. It should be less than double the yMin. Current absolute yMin value is '',
                                Num \<bar>y_min\<bar>])]
                       else []);
               failed = (win_ascent < y_max \<or> win_ascent > y_max * 2
                         \<or> win_descent < \<bar>y_min\<bar> \<or> win_descent > \<bar>y_min\<bar> * 2)
           in (out1 @ out2 @ out3 @ out4 @
               (if \<not> failed
                then [(PASS, Plain [Lit ''OS/2 usWinAscent & usWinDescent values look good!''])]
                else []), None)))"

subsection \<open>\<open>check_os2_metrics_match_hhea\<close>\<close>

definition check_os2_metrics_match_hhea :: "TTFont \<Rightarrow> run" where
  "check_os2_metrics_match_hhea ttFont =
     (let filename = basename (file_name ttFont);
          required = [''OS/2'', ''hhea''];
          lacking = filter (\<lambda>key. \<not> has_table ttFont key) required
      in if lacking \<noteq> []
         then (map (\<lambda>key. (FAIL, Message (''lacks-'' @ key)
                              [Str filename, Lit '' lacks a '', Lit [CHR 0x27], Str key,
                               Lit [CHR 0x27], Lit '' table.''])) lacking, None)
         else
           (case tbl_OS2 ttFont of
              None \<Rightarrow> ([], Some KeyError)
            | Some os2 \<Rightarrow>
                (case tbl_hhea ttFont of
                   None \<Rightarrow> ([], Some KeyError)
                 | Some hh \<Rightarrow>
                     if sTypoAscender os2 \<noteq> ascent hh
                     then ([(FAIL, Message ''ascender''
                              [Lit ''OS/2 sTypoAscender ('', Num (sTypoAscender os2),
                               Lit '') and hhea ascent ('', Num (ascent hh),
                               Lit '') must be equal.''])], None)
                     else if sTypoDescender os2 \<noteq> descent hh
                     then ([(FAIL, Message ''descender''
                              [Lit ''OS/2 sTypoDescender ('', Num (sTypoDescender os2),
                               Lit '') and hhea descent ('', Num (descent hh),
                               Lit '') must be equal.''])], None)
                     else if sTypoLineGap os2 \<noteq> lineGap hh
                     then ([(FAIL, Message ''lineGap''
                              [Lit ''OS/2 sTypoLineGap ('', Num (sTypoLineGap os2),
                               Lit '') and hhea lineGap ('', Num (lineGap hh),
                               Lit '') must be equal.''])], None)
                     else ([(PASS, Plain
                              [Lit ''OS/2.sTypoAscender/Descender values match hhea.ascent/descent.''])],
                           None))))"

subsection \<open>\<open>check_family_vertical_metrics\<close>\<close>

text \<open>
  The local dictionary \<open>vmetrics\<close> maps each of eight metric names to a dictionary from
  full font name to value. Python dictionaries keep insertion order, and assigning to a
  key that is present keeps its place: this is \<open>AList.update\<close> on association lists.
\<close>

type_synonym vm_dict = "(string \<times> (string option \<times> int) list) list"

definition vm_initial :: vm_dict where
  "vm_initial =
     [(''sTypoAscender'', []), (''sTypoDescender'', []), (''sTypoLineGap'', []),
      (''usWinAscent'', []), (''usWinDescent'', []),
      (''ascent'', []), (''descent'', []), (''lineGap'', [])]"

definition vm_store :: "string \<Rightarrow> string option \<Rightarrow> int \<Rightarrow> vm_dict \<Rightarrow> vm_dict" where
  "vm_store k full_font_name v vm = AList.map_entry k (AList.update full_font_name v) vm"

text \<open>
  The first loop, over the fonts: the outcomes yielded so far, the flag
  \<open>missing_tables\<close> and the dictionary are the loop state. \<open>ttFont["name"]\<close> raises
  \<open>KeyError\<close> on a font without a name table.
\<close>

fun vertical_metrics_collect ::
  "TTFont list \<Rightarrow> outcome list \<Rightarrow> bool \<Rightarrow> vm_dict
     \<Rightarrow> (outcome list \<times> bool \<times> vm_dict) \<times> py_error option" where
  "vertical_metrics_collect [] out missing_tables vm = ((out, missing_tables, vm), None)"
| "vertical_metrics_collect (ttFont # rest) out missing_tables vm =
     (let filename = basename (file_name ttFont) in
      case tbl_OS2 ttFont of
        None \<Rightarrow>
          vertical_metrics_collect rest
            (out @ [(FAIL, Message ''lacks-OS/2''
                       [Str filename, Lit '' lacks an '', Lit [CHR 0x27], Lit ''OS/2'',
                        Lit [CHR 0x27], Lit '' table.''])])
            True vm
      | Some os2 \<Rightarrow>
          (case tbl_hhea ttFont of
             None \<Rightarrow>
               vertical_metrics_collect rest
                 (out @ [(FAIL, Message ''lacks-hhea''
                            [Str filename, Lit '' lacks a '', Lit [CHR 0x27], Lit ''hhea'',
                             Lit [CHR 0x27], Lit '' table.''])])
                 True vm
           | Some hh \<Rightarrow>
               (case tbl_name ttFont of
                  None \<Rightarrow> ((out, missing_tables, vm), Some KeyError)
                | Some nm \<Rightarrow>
                    (let full_font_name = getBestFullName nm;
                         vm1 = vm_store ''sTypoAscender'' full_font_name (sTypoAscender os2) vm;
                         vm2 = vm_store ''sTypoDescender'' full_font_name (sTypoDescender os2) vm1;
                         vm3 = vm_store ''sTypoLineGap'' full_font_name (sTypoLineGap os2) vm2;
                         vm4 = vm_store ''usWinAscent'' full_font_name (usWinAscent os2) vm3;
                         vm5 = vm_store ''usWinDescent'' full_font_name (usWinDescent os2) vm4;
                         vm6 = vm_store ''ascent'' full_font_name (ascent hh) vm5;
                         vm7 = vm_store ''descent'' full_font_name (descent hh) vm6;
                         vm8 = vm_store ''lineGap'' full_font_name (lineGap hh) vm7
                     in vertical_metrics_collect rest out missing_tables vm8))))"

text \<open>\<open>"\n".join(["{}: {}".format(k, v) for k, v in d.items()])\<close>.\<close>

fun join_lines :: "(string option \<times> int) list \<Rightarrow> frag list" where
  "join_lines [] = []"
| "join_lines [(k, v)] = [Opt k, Lit '': '', Num v]"
| "join_lines ((k, v) # rest) = [Opt k, Lit '': '', Num v, Lit [CHR 0x0A]] @ join_lines rest"

definition check_family_vertical_metrics :: "TTFont list \<Rightarrow> run" where
  "check_family_vertical_metrics ttFonts =
     (case vertical_metrics_collect ttFonts [] False vm_initial of
        ((out, missing_tables, vm), Some e) \<Rightarrow> (out, Some e)
      | ((out, missing_tables, vm), None) \<Rightarrow>
          if \<not> missing_tables
          then
            (let failed = filter (\<lambda>(k, v). card (set (map snd v)) \<noteq> 1) vm
             in if failed \<noteq> []
                then (out @ map (\<lambda>(k, v).
                               (FAIL, Message (k @ ''-mismatch'')
                                  ([Str k, Lit '' is not the same across the family:'',
                                    Lit [CHR 0x0A]] @ join_lines v))) failed, None)
                else (out @ [(PASS, Plain
                                [Lit ''Vertical metrics are the same across the family.''])],
                      None))
          else (out, None))"

subsection \<open>\<open>check_linegaps\<close>\<close>

definition check_linegaps :: "TTFont \<Rightarrow> run" where
  "check_linegaps ttFont =
     (let required_tables = {''hhea'', ''OS/2''};
          missing_tables = sorted_list_of_set (required_tables - keys ttFont)
      in if missing_tables \<noteq> []
         then (map (\<lambda>table_tag.
                      (FAIL, Message ''lacks-table''
                         [Lit ''Font lacks '', Lit [CHR 0x27], Str table_tag, Lit [CHR 0x27],
                          Lit '' table.''])) missing_tables, None)
         else
           (case tbl_hhea ttFont of
              None \<Rightarrow> ([], Some KeyError)
            | Some hh \<Rightarrow>
                if lineGap hh \<noteq> 0
                then ([(WARN, Message ''hhea'' [Lit ''hhea lineGap is not equal to 0.''])], None)
                else
                  (case tbl_OS2 ttFont of
                     None \<Rightarrow> ([], Some KeyError)
                   | Some os2 \<Rightarrow>
                       if sTypoLineGap os2 \<noteq> 0
                       then ([(WARN, Message ''OS/2''
                                [Lit ''OS/2 sTypoLineGap is not equal to 0.''])], None)
                       else ([(PASS, Plain
                                [Lit ''OS/2 sTypoLineGap and hhea lineGap are both 0.''])],
                             None))))"

subsection \<open>\<open>check_typoascender_exceeds_Agrave\<close>\<close>

text \<open>
  The check body receives the address of the entity's font. It returns its run and the
  heap it leaves. \<open>pen.bounds[-1]\<close> raises \<open>TypeError\<close> when the pen holds no bounds.
\<close>

definition check_typoascender_exceeds_Agrave :: "heap \<Rightarrow> nat \<Rightarrow> run \<times> heap" where
  "check_typoascender_exceeds_Agrave h ttFont =
     (let (ttFont_copy, h1) = deepcopy h ttFont in
      case tbl_OS2 (objs h1 ttFont_copy) of
        None \<Rightarrow> (([(FAIL, Message ''lacks-OS/2'' [Lit ''Font file lacks OS/2 table''])], None), h1)
      | Some os2 \<Rightarrow>
          (let glyphset = map fst (getGlyphSet (objs h1 ttFont_copy)) in
           if ''Agrave'' \<notin> set glyphset \<and> ''uni00C0'' \<notin> set glyphset
           then (([(SKIP, Message ''lacks-Agrave''
                      [Lit ''Font file lacks the /Agrave, so it can'',
                       Lit [CHR 0xE2, CHR 0x80, CHR 0x99],
                       Lit ''t be compared with typoAscender''])], None), h1)
           else
             (let (drawn_bounds, h2) =
                    (case draw h1 ttFont_copy ''Agrave'' of
                       (Inl e, h') \<Rightarrow>
                         if e = KeyError then draw h' ttFont_copy ''uni00C0'' else (Inl e, h')
                     | (Inr b, h') \<Rightarrow> (Inr b, h'))
              in case drawn_bounds of
                   Inl e \<Rightarrow> (([], Some e), h2)
                 | Inr None \<Rightarrow> (([], Some TypeError), h2)
                 | Inr (Some (xMin, yMin, xMax, yMax)) \<Rightarrow>
                     (let typoAscender = sTypoAscender os2 in
                      if real_of_int typoAscender < yMax
                      then (([(WARN, Message ''typoAscender''
                                 [Lit ''OS/2.sTypoAscender value should be greater than '',
                                  Val yMax, Lit '', but got '', Num typoAscender,
                                  Lit '' instead''])], None), h2)
                      else (([(PASS, Plain
                                 [Lit ''OS/2.sTypoAscender value is greater than the yMax of /Agrave.''])],
                             None), h2)))))"

subsection \<open>\<open>check_caps_vertically_centered\<close>\<close>

definition SOME_UPPERCASE_GLYPHS :: "string list" where
  "SOME_UPPERCASE_GLYPHS =
     [''A'', ''B'', ''C'', ''D'', ''E'', ''H'', ''I'', ''M'', ''O'', ''S'', ''T'', ''X'']"

text \<open>
  The second loop: one fresh pen and one \<open>draw\<close> per sample glyph, on the glyph set of
  the copy at \<open>c\<close>. Unpacking \<open>pen.bounds\<close> raises \<open>TypeError\<close> when it is \<open>None\<close>.
\<close>

fun caps_draw_loop ::
  "heap \<Rightarrow> nat \<Rightarrow> string list \<Rightarrow> real list \<Rightarrow> real list
     \<Rightarrow> (py_error + real list \<times> real list) \<times> heap" where
  "caps_draw_loop h c [] highest_point_list lowest_point_list =
     (Inr (highest_point_list, lowest_point_list), h)"
| "caps_draw_loop h c (glyphName # rest) highest_point_list lowest_point_list =
     (case draw h c glyphName of
        (Inl e, h') \<Rightarrow> (Inl e, h')
      | (Inr None, h') \<Rightarrow> (Inl TypeError, h')
      | (Inr (Some (xMin, lowest_point, xMax, highest_point)), h') \<Rightarrow>
          caps_draw_loop h' c rest
            (highest_point_list @ [highest_point]) (lowest_point_list @ [lowest_point]))"

text \<open>\<open>sum(xs) / len(xs)\<close>: true division, \<open>ZeroDivisionError\<close> on a zero divisor.\<close>

definition py_truediv :: "real \<Rightarrow> nat \<Rightarrow> py_error + real" where
  "py_truediv a n = (if n = 0 then Inl ZeroDivisionError else Inr (a / real n))"

definition check_caps_vertically_centered :: "heap \<Rightarrow> nat \<Rightarrow> run \<times> heap" where
  "check_caps_vertically_centered h ttFont =
     (let (ttFont_copy, h1) = deepcopy h ttFont;
          glyphSet = map fst (getGlyphSet (objs h1 ttFont_copy))
      in if \<exists>glyphname \<in> set SOME_UPPERCASE_GLYPHS. glyphname \<notin> set glyphSet
         then (([(SKIP, Message ''lacks-ascii''
                    [Lit ''The implementation of this check relies on a few samples of uppercase latin characters that are not available in this font.''])],
                None), h1)
         else
           (case caps_draw_loop h1 ttFont_copy SOME_UPPERCASE_GLYPHS [] [] of
              (Inl e, h2) \<Rightarrow> (([], Some e), h2)
            | (Inr (highest_point_list, lowest_point_list), h2) \<Rightarrow>
                (case tbl_head (objs h2 ttFont_copy) of
                   None \<Rightarrow> (([], Some KeyError), h2)
                 | Some hd_table \<Rightarrow>
                     (let upm = unitsPerEm hd_table;
                          line_spacing_factor = 12 / 10;
                          error_margin = (line_spacing_factor * real_of_int upm) * (18 / 100)
                      in case py_truediv (sum_list highest_point_list) (length highest_point_list) of
                           Inl e \<Rightarrow> (([], Some e), h2)
                         | Inr average_cap_height \<Rightarrow>
                             (case py_truediv (sum_list lowest_point_list) (length lowest_point_list) of
                                Inl e \<Rightarrow> (([], Some e), h2)
                              | Inr average_descender \<Rightarrow>
                                  (case tbl_hhea (objs h2 ttFont) of
                                     None \<Rightarrow> (([], Some KeyError), h2)
                                   | Some hh \<Rightarrow>
                                       (let top_margin = real_of_int (ascent hh) - average_cap_height;
                                            bottom_margin = real_of_int \<bar>descent hh\<bar> + average_descender;
                                            difference = \<bar>top_margin - bottom_margin\<bar>
                                        in if difference > error_margin
                                           then (([(WARN, Message ''vertical-metrics-not-centered''
                                                      [Lit ''Uppercase glyphs are not vertically centered in the em box.''])],
                                                  None), h2)
                                           else (([(PASS, Plain
                                                      [Lit ''Uppercase glyphs are vertically centered in the em box.''])],
                                                  None), h2))))))))"

section \<open>outline.py\<close>

text \<open>
  The condition \<open>outlines_dict\<close> maps \<open>(glyphname, display_name)\<close> to the list of
  \<open>BezierPath\<close>s of the glyph, in glyph order. The \<open>beziers\<close> library is not part of the
  sources: a path is modelled by what the checks read from it. \<open>seg_len\<close> is \<open>len(seg)\<close>
  (2 for a line), \<open>seg_length\<close> is \<open>seg.length\<close>, \<open>seg_repr\<close> is the text an f-string
  gives for the segment, \<open>tangent_at_0\<close> and \<open>tangent_at_1\<close> are \<open>tangentAtTime(0)\<close> and
  \<open>tangentAtTime(1)\<close>. The \<open>angle\<close> of a vector is a parameter \<open>angle_of\<close> of the
  checks that read it. Coordinates and lengths are Python floats; they are real
  numbers here.
\<close>

record node =
  node_type :: string
  node_x :: real
  node_y :: real

record segment =
  seg_len :: nat
  seg_length :: real
  seg_repr :: string
  seg_start :: "real \<times> real"
  seg_end :: "real \<times> real"
  tangent_at_0 :: "real \<times> real"
  tangent_at_1 :: "real \<times> real"

record bounding_box =
  bl :: "(real \<times> real) option"
  bb_left :: real
  bb_right :: real
  bb_top :: real
  bb_bottom :: real

record path =
  asNodelist :: "node list"
  asSegments :: "segment list"
  path_length :: real
  bounds :: bounding_box
  direction :: int

type_synonym outlines = "((string \<times> string) \<times> path list) list"

definition ALIGNMENT_MISS_EPSILON :: real where "ALIGNMENT_MISS_EPSILON = 2"
definition SHORT_PATH_EPSILON :: real where "SHORT_PATH_EPSILON = 6 / 1000"
definition SHORT_PATH_ABSOLUTE_EPSILON :: real where "SHORT_PATH_ABSOLUTE_EPSILON = 3"
definition COLINEAR_EPSILON :: real where "COLINEAR_EPSILON = 1 / 10"
definition JAG_AREA_EPSILON :: real where "JAG_AREA_EPSILON = 5 / 100"
definition JAG_ANGLE :: real where "JAG_ANGLE = 25 / 100"
definition FALSE_POSITIVE_CUTOFF :: nat where "FALSE_POSITIVE_CUTOFF = 100"

definition close_but_not_on :: "real \<Rightarrow> real \<Rightarrow> real \<Rightarrow> bool" where
  "close_but_not_on yExpected yTrue tolerance =
     (if yExpected = yTrue then False
      else if \<bar>yExpected - yTrue\<bar> \<le> tolerance then True
      else False)"

subsection \<open>Loops that collect warnings\<close>

text \<open>
  \<open>for x in xs: ...\<close> where the body appends to \<open>warnings\<close> or raises: the warnings of
  the whole loop, or the first exception.
\<close>

fun collect :: "('a \<Rightarrow> py_error + 'w list) \<Rightarrow> 'a list \<Rightarrow> py_error + 'w list" where
  "collect body [] = Inr []"
| "collect body (x # xs) =
     (case body x of
        Inl e \<Rightarrow> Inl e
      | Inr ws \<Rightarrow> (case collect body xs of Inl e \<Rightarrow> Inl e | Inr ws' \<Rightarrow> Inr (ws @ ws')))"

text \<open>
  The loop over the glyphs of \<open>check_outline_alignment_miss\<close>,
  \<open>check_outline_short_segments\<close> and \<open>check_outline_colinear_vectors\<close>: after the
  paths of a glyph have been scanned, \<open>if len(warnings) > FALSE_POSITIVE_CUTOFF\<close> the
  body yields its summary \<open>PASS\<close> and returns (\<open>CutOff\<close>). \<open>scan\<close> gives the warnings
  the paths of one glyph add.
\<close>

datatype 'w glyph_loop_end = Completed "'w list" | CutOff | Raised py_error

fun glyph_loop ::
  "('g \<Rightarrow> py_error + 'w list) \<Rightarrow> 'g list \<Rightarrow> 'w list \<Rightarrow> 'w glyph_loop_end" where
  "glyph_loop scan [] warnings = Completed warnings"
| "glyph_loop scan (g # rest) warnings =
     (case scan g of
        Inl e \<Rightarrow> Raised e
      | Inr new \<Rightarrow>
          if length (warnings @ new) > FALSE_POSITIVE_CUTOFF then CutOff
          else glyph_loop scan rest (warnings @ new))"

subsection \<open>\<open>check_outline_alignment_miss\<close>\<close>

text \<open>
  \<open>str.isupper\<close> on one character; the characters of a name are code points up to 255
  here (Latin-1), whose uppercase letters are \<open>A\<close> to \<open>Z\<close> and \<open>0xC0\<close> to \<open>0xDE\<close> without
  the multiplication sign \<open>0xD7\<close>.
\<close>

definition isupper :: "char \<Rightarrow> bool" where
  "isupper c =
     (let n = (of_char c :: nat)
      in (65 \<le> n \<and> n \<le> 90) \<or> (192 \<le> n \<and> n \<le> 222 \<and> n \<noteq> 215))"

text \<open>
  \<open>len(glyphname) > 1 or glyphname[0].isupper()\<close>: \<open>glyphname[0]\<close> raises \<open>IndexError\<close> on
  an empty name.
\<close>

definition is_caps_name :: "string \<Rightarrow> py_error + bool" where
  "is_caps_name glyphname =
     (if length glyphname > 1 then Inr True
      else case glyphname of [] \<Rightarrow> Inl IndexError | c # cs \<Rightarrow> Inr (isupper c))"

definition alignment_line ::
  "string \<Rightarrow> string \<Rightarrow> node \<Rightarrow> string \<times> int \<Rightarrow> py_error + frag list list" where
  "alignment_line glyphname display_name nd item =
     (case item of (line, yExpected) \<Rightarrow>
        (case (if line = ''x-height'' then is_caps_name glyphname else Inr False) of
           Inl e \<Rightarrow> Inl e
         | Inr skip \<Rightarrow>
             if skip then Inr []
             else if close_but_not_on (real_of_int yExpected) (node_y nd) ALIGNMENT_MISS_EPSILON
             then Inr [[Str display_name, Lit '': X='', Val (node_x nd), Lit '',Y='',
                        Val (node_y nd), Lit '' (should be at '', Str line, Lit '' '',
                        Num yExpected, Lit ''?)'']]
             else Inr []))"

definition alignment_node ::
  "(string \<times> int) list \<Rightarrow> string \<Rightarrow> string \<Rightarrow> node \<Rightarrow> py_error + frag list list" where
  "alignment_node alignments glyphname display_name nd =
     (if node_type nd = ''offcurve'' then Inr []
      else collect (alignment_line glyphname display_name nd) alignments)"

definition alignment_glyph ::
  "(string \<times> int) list \<Rightarrow> (string \<times> string) \<times> path list \<Rightarrow> py_error + frag list list" where
  "alignment_glyph alignments item =
     (case item of ((glyphname, display_name), outlines) \<Rightarrow>
        collect (\<lambda>p. collect (alignment_node alignments glyphname display_name) (asNodelist p))
          outlines)"

definition check_outline_alignment_miss :: "TTFont \<Rightarrow> outlines \<Rightarrow> config \<Rightarrow> run" where
  "check_outline_alignment_miss ttFont outlines_dict config =
     (case tbl_OS2 ttFont of
        None \<Rightarrow> ([], Some KeyError)
      | Some os2 \<Rightarrow>
          (let alignments0 = [(''baseline'', 0), (''ascender'', sTypoAscender os2),
                              (''descender'', sTypoDescender os2)];
               os2version = version os2;
               alignments = (if os2version \<ge> 2
                             then alignments0 @ [(''x-height'', sxHeight os2),
                                                 (''cap-height'', sCapHeight os2)]
                             else alignments0);
               out = (if os2version \<ge> 2 then []
                      else [(WARN, Message ''skip-cap-x-height-alignment''
                               [Lit ''x-height and cap-height checks are skipped because OS/2 table version is only '',
                                Num os2version,
                                Lit '' and version >= 2 is required for those checks.''])])
           in case glyph_loop (alignment_glyph alignments) outlines_dict [] of
                Raised e \<Rightarrow> (out, Some e)
              | CutOff \<Rightarrow>
                  (out @ [(PASS, Plain
                     [Lit ''So many Y-coordinates of points were close to boundaries that this was probably by design.''])],
                   None)
              | Completed warnings \<Rightarrow>
                  if warnings \<noteq> []
                  then (out @ [(WARN, Message ''found-misalignments''
                                 [Lit ''The following glyphs have on-curve points which have potentially incorrect y coordinates:'',
                                  Lit [CHR 0x0A, CHR 0x0A],
                                  Bullets config (Some ''*'') warnings])], None)
                  else (out @ [(PASS, Plain
                                 [Lit ''Y-coordinates of points fell on appropriate boundaries.''])],
                        None)))"

subsection \<open>\<open>check_outline_short_segments\<close>\<close>

text \<open>\<open>math.isclose(a, b)\<close> with its default tolerances (relative 1e-09, absolute 0).\<close>

definition isclose :: "real \<Rightarrow> real \<Rightarrow> bool" where
  "isclose a b = (\<bar>a - b\<bar> \<le> max (max \<bar>a\<bar> \<bar>b\<bar> / 1000000000) 0)"

fun short_segments_loop ::
  "string \<Rightarrow> real \<Rightarrow> bool \<Rightarrow> segment list \<Rightarrow> frag list list" where
  "short_segments_loop display_name outline_length prev_was_line [] = []"
| "short_segments_loop display_name outline_length prev_was_line (seg # rest) =
     (if isclose (seg_length seg) 0
      then [[Str display_name, Lit '' contains a short segment '', Str (seg_repr seg)]]
      else if (seg_length seg < SHORT_PATH_ABSOLUTE_EPSILON
               \<or> seg_length seg < SHORT_PATH_EPSILON * outline_length)
              \<and> (prev_was_line \<or> seg_len seg > 2)
      then [[Str display_name, Lit '' contains a short segment '', Str (seg_repr seg)]]
      else [])
     @ short_segments_loop display_name outline_length (seg_len seg = 2) rest"

definition short_segments_path :: "string \<Rightarrow> path \<Rightarrow> frag list list" where
  "short_segments_path display_name p =
     (let outline_length = path_length p;
          segments = asSegments p
      in if segments = [] then []
         else short_segments_loop display_name outline_length
                (seg_len (last segments) = 2) (asSegments p))"

definition short_segments_glyph ::
  "(string \<times> string) \<times> path list \<Rightarrow> py_error + frag list list" where
  "short_segments_glyph item =
     (case item of ((glyphname, display_name), outlines) \<Rightarrow>
        Inr (concat (map (short_segments_path display_name) outlines)))"

definition check_outline_short_segments :: "TTFont \<Rightarrow> outlines \<Rightarrow> config \<Rightarrow> run" where
  "check_outline_short_segments ttFont outlines_dict config =
     (case glyph_loop short_segments_glyph outlines_dict [] of
        Raised e \<Rightarrow> ([], Some e)
      | CutOff \<Rightarrow>
          ([(PASS, Plain
               [Lit ''So many short segments were found that this was probably by design.''])],
           None)
      | Completed warnings \<Rightarrow>
          if warnings \<noteq> []
          then ([(WARN, Message ''found-short-segments''
                    [Lit ''The following glyphs have segments which seem very short:'',
                     Lit [CHR 0x0A, CHR 0x0A], Bullets config (Some ''*'') warnings])], None)
          else ([(PASS, Plain [Lit ''No short segments were found.''])], None))"

subsection \<open>\<open>check_outline_colinear_vectors\<close>\<close>

text \<open>
  \<open>for i in range(0, len(segments)): prev = segments[i - 1]; this = segments[i]\<close>: for
  \<open>i = 0\<close> the index \<open>-1\<close> is the last segment, so the pairs are each segment with its
  predecessor in the closed contour.
\<close>

definition prev_this :: "'a list \<Rightarrow> ('a \<times> 'a) list" where
  "prev_this segments = (if segments = [] then [] else zip (last segments # butlast segments) segments)"

definition colinear_path :: "(real \<times> real \<Rightarrow> real) \<Rightarrow> string \<Rightarrow> path \<Rightarrow> string list" where
  "colinear_path angle_of display_name p =
     concat (map (\<lambda>(prev, this).
        if seg_len prev = 2 \<and> seg_len this = 2
           \<and> \<bar>angle_of (tangent_at_0 prev) - angle_of (tangent_at_0 this)\<bar> < COLINEAR_EPSILON
        then [display_name @ '': '' @ seg_repr prev @ '' -> '' @ seg_repr this]
        else []) (prev_this (asSegments p)))"

definition colinear_glyph ::
  "(real \<times> real \<Rightarrow> real) \<Rightarrow> (string \<times> string) \<times> path list \<Rightarrow> py_error + string list" where
  "colinear_glyph angle_of item =
     (case item of ((glyphname, display_name), outlines) \<Rightarrow>
        Inr (concat (map (colinear_path angle_of display_name) outlines)))"

definition check_outline_colinear_vectors ::
  "(real \<times> real \<Rightarrow> real) \<Rightarrow> TTFont \<Rightarrow> outlines \<Rightarrow> config \<Rightarrow> run" where
  "check_outline_colinear_vectors angle_of ttFont outlines_dict config =
     (case glyph_loop (colinear_glyph angle_of) outlines_dict [] of
        Raised e \<Rightarrow> ([], Some e)
      | CutOff \<Rightarrow>
          ([(PASS, Plain
               [Lit ''So many colinear vectors were found that this was probably by design.''])],
           None)
      | Completed warnings \<Rightarrow>
          if warnings \<noteq> []
          then ([(WARN, Message ''found-colinear-vectors''
                    [Lit ''The following glyphs have colinear vectors:'',
                     Lit [CHR 0x0A, CHR 0x0A],
                     Bullets config (Some ''*'')
                       (map (\<lambda>w. [Str w]) (sorted_list_of_set (set warnings)))])], None)
          else ([(PASS, Plain [Lit ''No colinear vectors found.''])], None))"

subsection \<open>\<open>check_outline_jaggy_segments\<close>\<close>

text \<open>
  Vectors are pairs. \<open>v * -1\<close>, \<open>v.magnitude\<close> and \<open>v @ w\<close> (the dot product) of the
  \<open>beziers\<close> points, \<open>math.acos\<close> and \<open>math.degrees\<close> are taken over the reals. The text
  Python prints for a float is the parameter \<open>str_float\<close>.
\<close>

definition magnitude :: "real \<times> real \<Rightarrow> real" where
  "magnitude v = sqrt (fst v * fst v + snd v * snd v)"

definition dot :: "real \<times> real \<Rightarrow> real \<times> real \<Rightarrow> real" where
  "dot v w = fst v * fst w + snd v * snd w"

definition degrees :: "real \<Rightarrow> real" where
  "degrees r = r * 180 / pi"

definition jaggy_pair :: "(real \<Rightarrow> string) \<Rightarrow> string \<Rightarrow> segment \<times> segment \<Rightarrow> string list" where
  "jaggy_pair str_float display_name pair =
     (case pair of (prev, this) \<Rightarrow>
        (let in_vector = (- fst (tangent_at_1 prev), - snd (tangent_at_1 prev));
             out_vector = tangent_at_0 this
         in if magnitude in_vector * magnitude out_vector = 0 then []
            else
              (let angle = dot in_vector out_vector / (magnitude in_vector * magnitude out_vector)
               in if \<not> (- 1 \<le> angle \<and> angle \<le> 1) then []
                  else
                    (let jag_angle = arccos angle
                     in if \<bar>jag_angle\<bar> > JAG_ANGLE \<or> jag_angle = 0 then []
                        else [display_name @ '': '' @ seg_repr prev @ ''/'' @ seg_repr this
                              @ '' = '' @ str_float (degrees jag_angle)]))))"

definition jaggy_glyph ::
  "(real \<Rightarrow> string) \<Rightarrow> (string \<times> string) \<times> path list \<Rightarrow> string list" where
  "jaggy_glyph str_float item =
     (case item of ((glyphname, display_name), outlines) \<Rightarrow>
        concat (map (\<lambda>p. concat (map (jaggy_pair str_float display_name)
                                    (prev_this (asSegments p)))) outlines))"

definition check_outline_jaggy_segments ::
  "(real \<Rightarrow> string) \<Rightarrow> TTFont \<Rightarrow> outlines \<Rightarrow> config \<Rightarrow> run" where
  "check_outline_jaggy_segments str_float ttFont outlines_dict config =
     (case getBestCmap ttFont of
        None \<Rightarrow> ([], Some AttributeError)
      | Some cmap \<Rightarrow>
          (let warnings = concat (map (jaggy_glyph str_float) outlines_dict)
           in if warnings \<noteq> []
              then ([(WARN, Message ''found-jaggy-segments''
                        [Lit ''The following glyphs have jaggy segments:'',
                         Lit [CHR 0x0A, CHR 0x0A],
                         Bullets config (Some ''*'') (map (\<lambda>w. [Str w]) (sort warnings))])],
                    None)
              else ([(PASS, Plain [Lit ''No jaggy segments found.''])], None)))"

subsection \<open>\<open>check_outline_semi_vertical\<close>\<close>

definition semi_vertical_segment ::
  "(real \<times> real \<Rightarrow> real) \<Rightarrow> string \<Rightarrow> segment \<Rightarrow> string list" where
  "semi_vertical_segment angle_of display_name s =
     (if seg_len s \<noteq> 2 then []
      else
        (let angle = degrees (angle_of (fst (seg_end s) - fst (seg_start s),
                                        snd (seg_end s) - snd (seg_start s)))
         in concat (map (\<lambda>yExpected.
                      if close_but_not_on angle yExpected (5 / 10)
                      then [display_name @ '': '' @ seg_repr s] else [])
                    [- 180, - 90, 0, 90, 180])))"

definition semi_vertical_glyph ::
  "(real \<times> real \<Rightarrow> real) \<Rightarrow> (string \<times> string) \<times> path list \<Rightarrow> string list" where
  "semi_vertical_glyph angle_of item =
     (case item of ((glyphname, display_name), outlines) \<Rightarrow>
        concat (map (\<lambda>p. concat (map (semi_vertical_segment angle_of display_name)
                                    (asSegments p))) outlines))"

definition check_outline_semi_vertical ::
  "(real \<times> real \<Rightarrow> real) \<Rightarrow> TTFont \<Rightarrow> outlines \<Rightarrow> config \<Rightarrow> run" where
  "check_outline_semi_vertical angle_of ttFont outlines_dict config =
     (let warnings = concat (map (semi_vertical_glyph angle_of) outlines_dict)
      in if warnings \<noteq> []
         then ([(WARN, Message ''found-semi-vertical''
                   [Lit ''The following glyphs have semi-vertical/semi-horizontal lines:'',
                    Lit [CHR 0x0A, CHR 0x0A],
                    Bullets config (Some ''*'') (map (\<lambda>w. [Str w]) (sort warnings))])], None)
         else ([(PASS, Plain [Lit ''No semi-horizontal/semi-vertical lines found.''])], None))"

subsection \<open>\<open>check_outline_direction\<close>\<close>

definition bounds_contains :: "bounding_box \<Rightarrow> bounding_box \<Rightarrow> bool" where
  "bounds_contains bb1 bb2 =
     (bb_left bb1 \<le> bb_left bb2 \<and> bb_right bb1 \<ge> bb_right bb2
      \<and> bb_top bb1 \<ge> bb_top bb2 \<and> bb_bottom bb1 \<le> bb_bottom bb2)"

text \<open>
  \<open>is_within[j]\<close> after the first loop over the bounds of one glyph: the indices \<open>i\<close> of
  the paths with bounds whose bounds contain those of path \<open>j\<close>.
\<close>

definition is_within :: "bounding_box list \<Rightarrow> nat \<Rightarrow> nat list" where
  "is_within outline_bounds j =
     filter (\<lambda>i. bl (outline_bounds ! i) \<noteq> None \<and> i \<noteq> j \<and> bl (outline_bounds ! j) \<noteq> None
                 \<and> bounds_contains (outline_bounds ! i) (outline_bounds ! j))
       [0..<length outline_bounds]"

definition direction_glyph :: "(string \<times> string) \<times> path list \<Rightarrow> string list" where
  "direction_glyph item =
     (case item of ((glyphname, display_name), outlines) \<Rightarrow>
        (let outline_bounds = map bounds outlines
         in concat (map (\<lambda>my_bounds.
                      if bl my_bounds = None
                      then [display_name @ '' has a path with no bounds (probably a single point)'']
                      else []) outline_bounds)
            @ concat (map (\<lambda>i.
                        if is_within outline_bounds i \<noteq> [] then []
                        else if direction (outlines ! i) = 1
                        then [display_name @ '' has a counter-clockwise outer contour'']
                        else []) [0..<length outlines])))"

definition check_outline_direction :: "TTFont \<Rightarrow> outlines \<Rightarrow> config \<Rightarrow> run" where
  "check_outline_direction ttFont outlines_dict config =
     (let warnings = concat (map direction_glyph outlines_dict)
      in if warnings \<noteq> []
         then ([(WARN, Message ''ccw-outer-contour''
                   [Lit ''The following glyphs have a counter-clockwise outer contour:'',
                    Lit [CHR 0x0A, CHR 0x0A],
                    Bullets config (Some ''*'') (map (\<lambda>w. [Str w]) (sort warnings))])], None)
         else ([], None))"

subsection \<open>\<open>check_overlapping_path_segments\<close>\<close>

fun overlapping_loop ::
  "string \<Rightarrow> segment list \<Rightarrow> ((real \<times> real) \<times> (real \<times> real)) set \<Rightarrow> frag list list" where
  "overlapping_loop display_name [] seen = []"
| "overlapping_loop display_name (seg # rest) seen =
     (let normal = (seg_start seg, seg_end seg);
          flipped = (seg_end seg, seg_start seg)
      in (if normal \<in> seen \<or> flipped \<in> seen
          then [[Str display_name, Lit '': '', Str (seg_repr seg),
                 Lit '' has the same coordinates as a previous segment.'']]
          else [])
         @ overlapping_loop display_name rest (insert normal seen))"

definition overlapping_glyph :: "(string \<times> string) \<times> path list \<Rightarrow> frag list list" where
  "overlapping_glyph item =
     (case item of ((glyphname, display_name), outlines) \<Rightarrow>
        overlapping_loop display_name (concat (map asSegments outlines)) {})"

definition check_overlapping_path_segments :: "TTFont \<Rightarrow> outlines \<Rightarrow> config \<Rightarrow> run" where
  "check_overlapping_path_segments ttFont outlines_dict config =
     (let failed = concat (map overlapping_glyph outlines_dict)
      in if failed \<noteq> []
         then ([(WARN, Message ''overlapping-path-segments''
                   [Lit ''The following glyphs have overlapping path segments:'',
                    Lit [CHR 0x0A, CHR 0x0A], Bullets config (Some ''*'') failed])], None)
         else ([(PASS, Plain [Lit ''No overlapping path segments found.''])], None))"

section \<open>opentype/cff.py\<close>

record CFFAnalysis =
  glyphs_dotsection :: "string list"
  glyphs_endchar_seac :: "string list"
  glyphs_exceed_max :: "string list"
  glyphs_recursion_errors :: "string list"
  string_not_ascii :: "(string \<times> string) list option"

definition CFFAnalysis_init :: CFFAnalysis where
  "CFFAnalysis_init =
     \<lparr>glyphs_dotsection = [], glyphs_endchar_seac = [], glyphs_exceed_max = [],
      glyphs_recursion_errors = [], string_not_ascii = Some []\<rparr>"


subsection \<open>Python lists and numbers\<close>




subsection \<open>\<open>_traverse_subr_call_tree\<close>\<close>









subsection \<open>\<open>_analyze_cff\<close>\<close>







subsection \<open>The condition \<open>cff_analysis\<close>\<close>

text \<open>
  A \<open>Font\<close> entity has its file, its index in a collection when it is a \<open>TTCFont\<close>, and
  the address of the \<open>TTFont\<close> object it shares with all checks. \<open>TTFont(file)\<close> and
  \<open>TTFont(file, fontNumber=index)\<close> load a new object from the file; what the file
  decodes to is the parameter \<open>disk\<close>.
\<close>

record Font =
  font_file :: string
  ttc_index :: "nat option"
  font_ttFont :: nat





subsection \<open>The CFF checks\<close>

definition call_depth_outcomes :: "CFFAnalysis \<Rightarrow> outcome list" where
  "call_depth_outcomes analysis =
     (if glyphs_exceed_max analysis \<noteq> [] \<or> glyphs_recursion_errors analysis \<noteq> []
      then map (\<lambda>gn. (FAIL, Message ''max-depth''
                         [Lit ''Subroutine call depth exceeded maximum of 10 for glyph '',
                          Lit [CHR 0x22], Str gn, Lit [CHR 0x22], Lit ''.'']))
             (glyphs_exceed_max analysis)
           @ map (\<lambda>gn. (FAIL, Message ''recursion-error''
                           [Lit ''Recursion error while decompiling glyph '', Lit [CHR 0x22],
                            Str gn, Lit [CHR 0x22], Lit ''.'']))
               (glyphs_recursion_errors analysis)
      else [])"

definition check_cff_call_depth :: "CFFAnalysis \<Rightarrow> run" where
  "check_cff_call_depth analysis = (call_depth_outcomes analysis, None)"

definition check_cff2_call_depth :: "CFFAnalysis \<Rightarrow> run" where
  "check_cff2_call_depth analysis = (call_depth_outcomes analysis, None)"

definition check_cff_deprecated_operators :: "CFFAnalysis \<Rightarrow> run" where
  "check_cff_deprecated_operators analysis =
     (if glyphs_dotsection analysis \<noteq> [] \<or> glyphs_endchar_seac analysis \<noteq> []
      then (map (\<lambda>gn. (WARN, Message ''deprecated-operator-dotsection''
                          [Lit ''Glyph '', Lit [CHR 0x22], Str gn, Lit [CHR 0x22],
                           Lit '' uses deprecated '', Lit [CHR 0x22], Lit ''dotsection'',
                           Lit [CHR 0x22], Lit '' operator.'']))
              (glyphs_dotsection analysis)
            @ map (\<lambda>gn. (FAIL, Message ''deprecated-operation-endchar-seac''
                            [Lit ''Glyph '', Lit [CHR 0x22], Str gn, Lit [CHR 0x22],
                             Lit '' has deprecated use of '', Lit [CHR 0x22], Lit ''endchar'',
                             Lit [CHR 0x22],
                             Lit '' operator to build accented characters (seac).'']))
                (glyphs_endchar_seac analysis), None)
      else ([], None))"

text \<open>
  \<open>string.encode('latin-1').decode('utf-8')\<close> is the parameter \<open>recode\<close>: \<open>None\<close> when
  one of the two codecs raises.
\<close>

fun detailed_info :: "(string \<Rightarrow> string option) \<Rightarrow> (string \<times> string) list \<Rightarrow> py_error + frag list" where
  "detailed_info recode [] = Inr []"
| "detailed_info recode ((key, s) # rest) =
     (case recode s of
        None \<Rightarrow> Inl UnicodeError
      | Some s' \<Rightarrow>
          (case detailed_info recode rest of
             Inl e \<Rightarrow> Inl e
           | Inr t \<Rightarrow> Inr ([Lit [CHR 0x0A, CHR 0x0A, CHR 0x09], Lit '' - '', Str key, Lit '': '',
                            Str s'] @ t)))"

definition check_cff_ascii_strings :: "(string \<Rightarrow> string option) \<Rightarrow> CFFAnalysis \<Rightarrow> run" where
  "check_cff_ascii_strings recode analysis =
     (case string_not_ascii analysis of
        None \<Rightarrow>
          ([(FAIL, Message ''cff-unable-to-decode''
               [Lit ''Unable to decode CFF table, possibly due to out of ASCII range strings. Please check table strings.''])],
           None)
      | Some l \<Rightarrow>
          if l \<noteq> []
          then (case detailed_info recode l of
                  Inl e \<Rightarrow> ([], Some e)
                | Inr t \<Rightarrow>
                    ([(FAIL, Message ''cff-string-not-in-ascii-range''
                         ([Lit ''The following CFF TopDict strings are not in the ASCII range: ''] @ t))],
                     None))
          else ([], None))"

section \<open>outline.py: the condition \<open>outlines_dict\<close>\<close>

text \<open>
  \<open>f"{n:04X}"\<close>: uppercase hexadecimal digits, padded with zeros after the sign to four
  characters.
\<close>

definition hex_digit :: "nat \<Rightarrow> char" where
  "hex_digit d = ''0123456789ABCDEF'' ! d"

function hex_digits :: "nat \<Rightarrow> string" where
  "hex_digits n =
     (if n < 16 then [hex_digit n] else hex_digits (n div 16) @ [hex_digit (n mod 16)])"
  by pat_completeness auto
termination
  by (relation "measure id") auto

declare hex_digits.simps [simp del]

definition format_04X :: "int \<Rightarrow> string" where
  "format_04X n =
     (let sign = (if n < 0 then ''-'' else []);
          digits = hex_digits (nat \<bar>n\<bar>)
      in sign @ replicate (4 - length sign - length digits) CHR ''0'' @ digits)"

text \<open>
  The dictionary comprehension \<open>reversed_cmap\<close>: a later item of \<open>getBestCmap()\<close> with the
  same glyph name replaces the code point stored for it.
\<close>

definition reversed_cmap :: "(int \<times> string) list \<Rightarrow> (string \<times> int) list" where
  "reversed_cmap items = fold (\<lambda>(k, v) d. AList.update v k d) items []"

definition display_name_of :: "(string \<times> int) list \<Rightarrow> string \<Rightarrow> string" where
  "display_name_of reversed glyphname =
     (case map_of reversed glyphname of
        Some cp \<Rightarrow> glyphname @ '' (U+'' @ format_04X cp @ '')''
      | None \<Rightarrow> glyphname)"

text \<open>
  \<open>BezierPath.fromFonttoolsGlyph(ttFont, glyphname)\<close> belongs to the \<open>beziers\<close> library,
  which is not part of the sources: it is the parameter \<open>fromFonttoolsGlyph\<close>. The
  condition hands it \<open>font.ttFont\<close> itself, the object every check shares, so the
  parameter works on the heap at that address: it returns the paths of the glyph, or
  the exception it raises, and the heap it leaves. \<open>getGlyphOrder\<close> is the list
  \<open>ttFont.getGlyphOrder()\<close> of the object. The comprehension runs over the glyph order;
  a name that occurs again replaces the paths stored under its key.
\<close>

fun outlines_loop ::
  "(heap \<Rightarrow> nat \<Rightarrow> string \<Rightarrow> (py_error + path list) \<times> heap) \<Rightarrow> (string \<times> int) list \<Rightarrow> heap \<Rightarrow> nat
     \<Rightarrow> string list \<Rightarrow> outlines \<Rightarrow> (py_error + outlines) \<times> heap" where
  "outlines_loop fromFonttoolsGlyph reversed h ttFont [] acc = (Inr acc, h)"
| "outlines_loop fromFonttoolsGlyph reversed h ttFont (glyphname # rest) acc =
     (case fromFonttoolsGlyph h ttFont glyphname of
        (Inl e, h') \<Rightarrow> (Inl e, h')
      | (Inr paths, h') \<Rightarrow>
          outlines_loop fromFonttoolsGlyph reversed h' ttFont rest
            (AList.update (glyphname, display_name_of reversed glyphname) paths acc))"

definition outlines_dict ::
  "(TTFont \<Rightarrow> string list) \<Rightarrow> (heap \<Rightarrow> nat \<Rightarrow> string \<Rightarrow> (py_error + path list) \<times> heap) \<Rightarrow> heap
     \<Rightarrow> Font \<Rightarrow> (py_error + outlines) \<times> heap" where
  "outlines_dict getGlyphOrder fromFonttoolsGlyph h font =
     (let ttFont = font_ttFont font in
      case getBestCmap (objs h ttFont) of
        None \<Rightarrow> (Inl AttributeError, h)
      | Some cmap \<Rightarrow>
          outlines_loop fromFonttoolsGlyph (reversed_cmap cmap) h ttFont
            (getGlyphOrder (objs h ttFont)) [])"

section \<open>Example inputs\<close>

definition example_os2 :: os2_table where
  "example_os2 =
     \<lparr>version = 4, sTypoAscender = 800, sTypoDescender = - 200, sTypoLineGap = 0,
      usWinAscent = 1000, usWinDescent = 300, sxHeight = 500, sCapHeight = 700\<rparr>"

definition example_glyph :: glyph where
  "example_glyph = \<lparr>width = 600, pen_bounds = Some (50, 0, 550, 700)\<rparr>"

definition example_font :: TTFont where
  "example_font =
     \<lparr>file_name = ''fonts/Example-Regular.ttf'',
      tbl_OS2 = Some example_os2,
      tbl_hhea = Some \<lparr>ascent = 1000, descent = - 300, lineGap = 0\<rparr>,
      tbl_head = Some \<lparr>unitsPerEm = 1000\<rparr>,
      tbl_name = Some \<lparr>getBestFullName = Some ''Example Regular''\<rparr>,
      tbl_CFF = None,
      tbl_CFF2 = None,
      other_tables = [''cmap'', ''glyf'', ''hmtx'', ''maxp'', ''post''],
      getGlyphSet = map (\<lambda>n. (n, example_glyph)) (SOME_UPPERCASE_GLYPHS @ [''Agrave'']),
      getBestCmap = Some [(65, ''A''), (66, ''B'')],
      drawn = [],
      decompiled = []\<rparr>"

definition example_heap :: heap where
  "example_heap = \<lparr>objs = (\<lambda>a. example_font), next_addr = 1\<rparr>"

definition example_tnum_regular :: TTFont where
  "example_tnum_regular =
     example_font\<lparr>getGlyphSet :=
       [(''zero'', \<lparr>width = 560, pen_bounds = None\<rparr>),
        (''zero.tnum'', \<lparr>width = 600, pen_bounds = None\<rparr>),
        (''one.tnum'', \<lparr>width = 600, pen_bounds = None\<rparr>)]\<rparr>"

definition example_tnum_bold :: TTFont where
  "example_tnum_bold =
     example_font\<lparr>getGlyphSet :=
       [(''zero'', \<lparr>width = 580, pen_bounds = None\<rparr>),
        (''zero.tnum'', \<lparr>width = 620, pen_bounds = None\<rparr>),
        (''one.tnum'', \<lparr>width = 600, pen_bounds = None\<rparr>)]\<rparr>"

definition example_near_baseline_node :: node where
  "example_near_baseline_node = \<lparr>node_type = ''line'', node_x = 0, node_y = 1\<rparr>"

definition example_null_segment :: segment where
  "example_null_segment =
     \<lparr>seg_len = 2, seg_length = 0, seg_repr = ''L<<0.0,1.0>--<0.0,1.0>>'',
      seg_start = (0, 1), seg_end = (0, 1), tangent_at_0 = (0, 0), tangent_at_1 = (0, 0)\<rparr>"

definition example_busy_outlines :: outlines where
  "example_busy_outlines =
     [((''a'', ''a (U+0061)''),
       [\<lparr>asNodelist = replicate 101 example_near_baseline_node,
         asSegments = replicate 101 example_null_segment,
         path_length = 0,
         bounds = \<lparr>bl = Some (0, 1), bb_left = 0, bb_right = 0, bb_top = 1, bb_bottom = 1\<rparr>,
         direction = - 1\<rparr>])]"





definition example_entity :: Font where
  "example_entity = \<lparr>font_file = ''fonts/Example-Regular.otf'', ttc_index = None, font_ttFont = 0\<rparr>"


text \<open>A glyph with a clockwise outer contour and a counter-clockwise inner one.\<close>

definition example_ring_outlines :: outlines where
  "example_ring_outlines =
     [((''o'', ''o (U+006F)''),
       [\<lparr>asNodelist = [], asSegments = [], path_length = 2000,
         bounds = \<lparr>bl = Some (0, 0), bb_left = 0, bb_right = 500, bb_top = 500, bb_bottom = 0\<rparr>,
         direction = - 1\<rparr>,
        \<lparr>asNodelist = [], asSegments = [], path_length = 1200,
         bounds = \<lparr>bl = Some (100, 100), bb_left = 100, bb_right = 400, bb_top = 400,
                   bb_bottom = 100\<rparr>,
         direction = 1\<rparr>])]"


text \<open>
  A \<open>fromFonttoolsGlyph\<close> that gets the outline of a glyph the way a pen-based library
  does, by \<open>glyphset[glyphname].draw(pen)\<close> on the font it is given: one path around the
  bounds the pen has seen, none for a glyph without points.
\<close>

definition example_fromFonttoolsGlyph ::
  "heap \<Rightarrow> nat \<Rightarrow> string \<Rightarrow> (py_error + path list) \<times> heap" where
  "example_fromFonttoolsGlyph h a glyphname =
     (case draw h a glyphname of
        (Inl e, h') \<Rightarrow> (Inl e, h')
      | (Inr None, h') \<Rightarrow> (Inr [], h')
      | (Inr (Some (xMin, yMin, xMax, yMax)), h') \<Rightarrow>
          (Inr [\<lparr>asNodelist = [], asSegments = [],
                 path_length = 2 * (xMax - xMin) + 2 * (yMax - yMin),
                 bounds = \<lparr>bl = Some (xMin, yMin), bb_left = xMin, bb_right = xMax,
                           bb_top = yMax, bb_bottom = yMin\<rparr>,
                 direction = - 1\<rparr>], h'))"

text \<open>A glyph with one rectangular contour, drawn counter-clockwise.\<close>

definition example_bar_outlines :: outlines where
  "example_bar_outlines =
     [((''I'', ''I (U+0049)''),
       [\<lparr>asNodelist =
           [\<lparr>node_type = ''line'', node_x = 100, node_y = 0\<rparr>,
            \<lparr>node_type = ''line'', node_x = 200, node_y = 0\<rparr>,
            \<lparr>node_type = ''line'', node_x = 200, node_y = 700\<rparr>,
            \<lparr>node_type = ''line'', node_x = 100, node_y = 700\<rparr>],
         asSegments =
           [\<lparr>seg_len = 2, seg_length = 100, seg_repr = ''L<<100.0,0.0>--<200.0,0.0>>'',
             seg_start = (100, 0), seg_end = (200, 0),
             tangent_at_0 = (1, 0), tangent_at_1 = (1, 0)\<rparr>,
            \<lparr>seg_len = 2, seg_length = 700, seg_repr = ''L<<200.0,0.0>--<200.0,700.0>>'',
             seg_start = (200, 0), seg_end = (200, 700),
             tangent_at_0 = (0, 1), tangent_at_1 = (0, 1)\<rparr>,
            \<lparr>seg_len = 2, seg_length = 100, seg_repr = ''L<<200.0,700.0>--<100.0,700.0>>'',
             seg_start = (200, 700), seg_end = (100, 700),
             tangent_at_0 = (- 1, 0), tangent_at_1 = (- 1, 0)\<rparr>,
            \<lparr>seg_len = 2, seg_length = 700, seg_repr = ''L<<100.0,700.0>--<100.0,0.0>>'',
             seg_start = (100, 700), seg_end = (100, 0),
             tangent_at_0 = (0, - 1), tangent_at_1 = (0, - 1)\<rparr>],
         path_length = 1600,
         bounds = \<lparr>bl = Some (100, 0), bb_left = 100, bb_right = 200, bb_top = 700,
                   bb_bottom = 0\<rparr>,
         direction = 1\<rparr>])]"

section \<open>googlefonts/family.py: \<open>tnum_horizontal_metrics\<close>\<close>

text \<open>\<open>s.endswith(suffix)\<close>.\<close>

definition endswith :: "string \<Rightarrow> string \<Rightarrow> bool" where
  "endswith s suf = (length suf \<le> length s \<and> drop (length s - length suf) s = suf)"

text \<open>
  The list comprehension \<open>tnum_glyphs\<close>: the \<open>(glyph_id, glyph)\<close> items of the glyph set
  whose name ends in \<open>.tnum\<close>, in the order of \<open>glyphs.keys()\<close> (the names of a glyph
  set are the keys of a dictionary, so \<open>glyphs[glyph_id]\<close> is the glyph listed with
  \<open>glyph_id\<close>).
\<close>

definition tnum_glyphs :: "TTFont \<Rightarrow> (string \<times> glyph) list" where
  "tnum_glyphs ttFont =
     filter (\<lambda>(glyph_id, glyph). endswith glyph_id ''.tnum'') (getGlyphSet ttFont)"

text \<open>
  The dictionary \<open>tnum_widths\<close> from width to the list of glyph names, in insertion
  order. The inner loop adds the glyphs of one font, the outer loop runs over the fonts.
\<close>

fun tnum_widths_add ::
  "(string \<times> glyph) list \<Rightarrow> (int \<times> string list) list \<Rightarrow> (int \<times> string list) list" where
  "tnum_widths_add [] tnum_widths = tnum_widths"
| "tnum_widths_add ((glyph_id, glyph) # rest) tnum_widths =
     (case map_of tnum_widths (width glyph) of
        None \<Rightarrow> tnum_widths_add rest (AList.update (width glyph) [glyph_id] tnum_widths)
      | Some ids \<Rightarrow>
          tnum_widths_add rest (AList.update (width glyph) (ids @ [glyph_id]) tnum_widths))"

fun tnum_widths_collect ::
  "TTFont list \<Rightarrow> (int \<times> string list) list \<Rightarrow> (int \<times> string list) list" where
  "tnum_widths_collect [] tnum_widths = tnum_widths"
| "tnum_widths_collect (ttFont # rest) tnum_widths =
     tnum_widths_collect rest (tnum_widths_add (tnum_glyphs ttFont) tnum_widths)"

text \<open>The loop that finds \<open>most_common_width\<close>, with \<open>max_num\<close> as its second state.\<close>

fun most_common ::
  "(int \<times> string list) list \<Rightarrow> nat \<Rightarrow> int option \<Rightarrow> nat \<times> int option" where
  "most_common [] max_num most_common_width = (max_num, most_common_width)"
| "most_common ((w, glyphs) # rest) max_num most_common_width =
     (if length glyphs > max_num
      then most_common rest (length glyphs) (Some w)
      else most_common rest max_num most_common_width)"

text \<open>\<open>del d[k]\<close>: \<open>KeyError\<close> when the key is absent (\<open>None\<close> is never a key here).\<close>

definition py_del :: "int option \<Rightarrow> (int \<times> 'v) list \<Rightarrow> py_error + (int \<times> 'v) list" where
  "py_del k d =
     (case k of
        None \<Rightarrow> Inl KeyError
      | Some w \<Rightarrow> if w \<in> fst ` set d then Inr (AList.delete w d) else Inl KeyError)"

definition com_google_fonts_check_family_tnum_horizontal_metrics :: "TTFont list \<Rightarrow> run" where
  "com_google_fonts_check_family_tnum_horizontal_metrics RIBBI_ttFonts =
     (let tnum_widths = tnum_widths_collect RIBBI_ttFonts [] in
      if length (map fst tnum_widths) > 1
      then
        (let (max_num, most_common_width) = most_common tnum_widths 0 None in
         case py_del most_common_width tnum_widths of
           Inl e \<Rightarrow> ([], Some e)
         | Inr remaining \<Rightarrow>
             ([(FAIL, Message ''inconsistent-widths''
                  [Lit ''The most common tabular glyph width is '', Opt_num most_common_width,
                   Lit ''. But there are other tabular glyphs with different widths such as the following ones:'',
                   Lit [CHR 0x0A, CHR 0x09], Widths remaining, Lit ''.''])], None))
      else ([(PASS, Plain [Lit ''OK''])], None))"

section \<open>googlefonts/family.py: the other checks\<close>

subsection \<open>\<open>equal_codepoint_coverage\<close>\<close>

text \<open>
  \<open>canonical_stylename\<close> (\<open>googlefonts/conditions.py\<close>) is not among the sources: it is a
  parameter. \<open>cmaps\<close> maps style names to sets of code points. Python does not fix the
  order in which a set iterates, and two sets that are equal can iterate in different
  orders, depending on how each was built. A set of \<open>cmaps\<close> is therefore kept as the
  list of the keys of \<open>getBestCmap()\<close> it was built from, in their order; membership and
  emptiness look at its elements only. The order in which the set \<open>cmap - common_cps\<close>
  iterates is the parameter \<open>residue_order\<close>, given that list of keys and \<open>common_cps\<close>.
\<close>

fun cmaps_collect ::
  "(string \<Rightarrow> string option) \<Rightarrow> TTFont list \<Rightarrow> (string option \<times> int list) list
     \<Rightarrow> py_error + (string option \<times> int list) list" where
  "cmaps_collect canonical_stylename [] cmaps = Inr cmaps"
| "cmaps_collect canonical_stylename (ttFont # rest) cmaps =
     (let fontname = file_name ttFont;
          stylename = canonical_stylename fontname
      in case getBestCmap ttFont of
           None \<Rightarrow> Inl AttributeError
         | Some cmap \<Rightarrow>
             cmaps_collect canonical_stylename rest
               (AList.update stylename (map fst cmap) cmaps))"

definition com_google_fonts_check_family_equal_codepoint_coverage ::
  "(string \<Rightarrow> string option) \<Rightarrow> (int list \<Rightarrow> int set \<Rightarrow> int list) \<Rightarrow> TTFont list \<Rightarrow> config
     \<Rightarrow> run" where
  "com_google_fonts_check_family_equal_codepoint_coverage canonical_stylename residue_order
       ttFonts config =
     (case cmaps_collect canonical_stylename ttFonts [] of
        Inl e \<Rightarrow> ([], Some e)
      | Inr cmaps \<Rightarrow>
          (case map snd cmaps of
             [] \<Rightarrow> ([], Some IndexError)
           | first # others \<Rightarrow>
               (let common_cps = set first \<inter> \<Inter> (set (map set others));
                    problems = concat (map (\<lambda>(style, cmap).
                       let residue = set cmap - common_cps
                       in if residue \<noteq> {}
                          then [[Lit ''* '', Opt style,
                                 Lit '' contains encoded codepoints not found in other related fonts:'',
                                 Bullets config None
                                   (map (\<lambda>cp. [Lit ''U+'', Hex cp])
                                      (residue_order cmap common_cps))]]
                          else []) cmaps)
                in if problems \<noteq> []
                   then ([(FAIL, Message ''glyphset-diverges''
                             (concat (map (\<lambda>p. p @ [Lit [CHR 0x0A]]) (butlast problems))
                              @ last problems))], None)
                   else ([(PASS, Plain
                             [Lit ''All font files in this family have an equivalent encoded glyphset.''])],
                         None))))"

subsection \<open>\<open>italics_have_roman_counterparts\<close>\<close>

text \<open>\<open>sub in s\<close>, \<open>s.split(c)\<close> for a one-character separator, and
  \<open>s.replace(old, new)\<close> for a non-empty \<open>old\<close>.\<close>

fun contains :: "string \<Rightarrow> string \<Rightarrow> bool" where
  "contains [] sub = (sub = [])"
| "contains (x # xs) sub = (take (length sub) (x # xs) = sub \<or> contains xs sub)"

fun split_on :: "char \<Rightarrow> string \<Rightarrow> string list" where
  "split_on c [] = [[]]"
| "split_on c (x # xs) =
     (if x = c then [] # split_on c xs
      else (case split_on c xs of [] \<Rightarrow> [[x]] | w # ws \<Rightarrow> (x # w) # ws))"

function replace :: "string \<Rightarrow> string \<Rightarrow> string \<Rightarrow> string" where
  "replace old new s =
     (if old = [] \<or> s = [] then s
      else if take (length old) s = old then new @ replace old new (drop (length old) s)
      else hd s # replace old new (tl s))"
  by pat_completeness auto
termination
  by (relation "measure (\<lambda>(old, new, s). length s)") auto

declare replace.simps [simp del]

text \<open>One round of the loop over \<open>italics\<close>: the outcomes it yields and whether the
  file is added to \<open>missing_roman\<close>.\<close>

definition italic_round :: "string list \<Rightarrow> string \<Rightarrow> outcome list \<times> bool" where
  "italic_round fonts italic =
     (let out = (if \<not> contains (basename italic) ''-''
                    \<or> length (split_on CHR ''.'' (last (split_on CHR ''-'' (basename italic)))) \<noteq> 2
                 then [(WARN, Message ''bad-filename''
                          [Lit ''Filename seems to be incorrect: '', Lit [CHR 0x27], Str italic,
                           Lit [CHR 0x27]])]
                 else []);
          style0 = hd (split_on CHR ''.'' (last (split_on CHR ''-'' (basename italic))));
          is_varfont = contains style0 ''['';
          style_from_filename = (if is_varfont then hd (split_on CHR ''['' style0) else style0);
          roman_counterpart =
            (if style_from_filename = ''Italic''
             then (if is_varfont then replace ''-Italic'' '''' italic
                   else replace ''Italic'' ''Regular'' italic)
             else replace ''Italic'' '''' italic)
      in (out, roman_counterpart \<notin> set fonts))"

definition com_google_fonts_check_family_italics_have_roman_counterparts ::
  "string list \<Rightarrow> config \<Rightarrow> run" where
  "com_google_fonts_check_family_italics_have_roman_counterparts fonts config =
     (let italics = filter (\<lambda>f. contains f ''Italic'') fonts;
          rounds = map (italic_round fonts) italics;
          missing_roman = map fst (filter (\<lambda>(italic, r). snd r) (zip italics rounds))
      in (concat (map fst rounds)
          @ (if missing_roman \<noteq> []
             then [(FAIL, Message ''missing-roman''
                      [Lit ''Italics missing a Roman counterpart: '',
                       Pretty config missing_roman])]
             else [(PASS, Plain [Lit ''OK''])]), None))"

section \<open>Notions used in the statements\<close>

text \<open>
  All \<open>.tnum\<close> glyphs of a family, in the order the check meets them, and the names of
  those among them that have a given advance width.
\<close>

definition family_tnum_glyphs :: "TTFont list \<Rightarrow> (string \<times> glyph) list" where
  "family_tnum_glyphs ttFonts = concat (map tnum_glyphs ttFonts)"

definition ids_of_width :: "int \<Rightarrow> (string \<times> glyph) list \<Rightarrow> string list" where
  "ids_of_width w items = map fst (filter (\<lambda>(glyph_id, glyph). width glyph = w) items)"


text \<open>The severity and the message code of each outcome of a run, in order.\<close>

definition graded :: "run \<Rightarrow> (status \<times> string option) list" where
  "graded r = map (\<lambda>item. (fst item, msg_code (snd item))) (outcomes_of r)"

section \<open>Properties\<close>

subsection \<open>vmetrics\<close>

lemma vmetrics_loop_ymin:
  "ymin (vmetrics_loop g fs vm) = Min (insert (ymin vm) (fst ` g ` set fs))"
proof (induction fs arbitrary: vm)
  case Nil
  show ?case by simp
next
  case (Cons f fs)
  obtain a b where ab: "g f = (a, b)" by (cases "g f")
  have "Min (insert (min a (ymin vm)) (fst ` g ` set fs))
      = min a (Min (insert (ymin vm) (fst ` g ` set fs)))"
    by (cases "set fs = {}") (simp_all add: min.assoc min.commute)
  with Cons ab show ?case by (simp add: insert_commute)
qed

lemma vmetrics_loop_ymax:
  "ymax (vmetrics_loop g fs vm) = Max (insert (ymax vm) (snd ` g ` set fs))"
proof (induction fs arbitrary: vm)
  case Nil
  show ?case by simp
next
  case (Cons f fs)
  obtain a b where ab: "g f = (a, b)" by (cases "g f")
  have "Max (insert (max b (ymax vm)) (snd ` g ` set fs))
      = max b (Max (insert (ymax vm) (snd ` g ` set fs)))"
    by (cases "set fs = {}") (simp_all add: max.assoc max.commute)
  with Cons ab show ?case by (simp add: insert_commute)
qed

text \<open>
  C8. For every font collection, the empty one included, \<open>vmetrics\<close> returns
  \<open>ymin \<le> 0 \<le> ymax\<close>, where \<open>ymin\<close> is the minimum of 0 and every font's bounding-box
  yMin and \<open>ymax\<close> the maximum of 0 and every font's bounding-box yMax; on the empty
  collection it returns \<open>{ymin: 0, ymax: 0}\<close>.
\<close>

theorem vmetrics_bounds:
  "ymin (vmetrics g fs) = Min (insert 0 (fst ` g ` set fs))
   \<and> ymax (vmetrics g fs) = Max (insert 0 (snd ` g ` set fs))
   \<and> ymin (vmetrics g fs) \<le> 0 \<and> 0 \<le> ymax (vmetrics g fs)
   \<and> vmetrics g [] = \<lparr>ymin = 0, ymax = 0\<rparr>"
proof -
  have 1: "ymin (vmetrics g fs) = Min (insert 0 (fst ` g ` set fs))"
    by (simp add: vmetrics_def vmetrics_loop_ymin)
  have 2: "ymax (vmetrics g fs) = Max (insert 0 (snd ` g ` set fs))"
    by (simp add: vmetrics_def vmetrics_loop_ymax)
  have 3: "ymin (vmetrics g fs) \<le> 0" unfolding 1 by simp
  have 4: "0 \<le> ymax (vmetrics g fs)" unfolding 2 by simp
  have 5: "vmetrics g [] = \<lparr>ymin = 0, ymax = 0\<rparr>" by (simp add: vmetrics_def)
  from 1 2 3 4 5 show ?thesis by blast
qed

subsection \<open>Verdict precedence\<close>

lemma highest_severity_mem: "highest_severity best xs \<in> set (best # xs)"
  by (induction xs arbitrary: best) (auto split: if_splits)

lemma highest_severity_ge_best:
  "severity_rank best \<le> severity_rank (highest_severity best xs)"
proof (induction xs arbitrary: best)
  case Nil
  show ?case by simp
next
  case (Cons x xs)
  have "severity_rank best \<le> severity_rank (higher best x)" by simp
  also have "\<dots> \<le> severity_rank (highest_severity (higher best x) xs)" by (rule Cons.IH)
  finally show ?case by simp
qed

lemma highest_severity_ge:
  "s \<in> set xs \<Longrightarrow> severity_rank s \<le> severity_rank (highest_severity best xs)"
proof (induction xs arbitrary: best)
  case Nil
  then show ?case by simp
next
  case (Cons x xs)
  show ?case
  proof (cases "s = x")
    case True
    have "severity_rank x \<le> severity_rank (higher best x)" by simp
    also have "\<dots> \<le> severity_rank (highest_severity (higher best x) xs)"
      by (rule highest_severity_ge_best)
    finally show ?thesis using True by simp
  next
    case False
    with Cons.prems have "s \<in> set xs" by simp
    then show ?thesis using Cons.IH by simp
  qed
qed

lemma verdict_substantive:
  assumes "\<exists>s\<in>set emitted. \<not> informational s"
  shows "verdict emitted \<in> set emitted"
    and "\<forall>s\<in>set emitted. severity_rank s \<le> severity_rank (verdict emitted)"
proof -
  from assms obtain y ys where f: "filter (\<lambda>s. \<not> informational s) emitted = y # ys"
    by (cases "filter (\<lambda>s. \<not> informational s) emitted") (auto simp: filter_empty_conv)
  then have v: "verdict emitted = highest_severity y ys" by (simp add: verdict_def)
  have "highest_severity y ys \<in> set (y # ys)" by (rule highest_severity_mem)
  also have "set (y # ys) \<subseteq> set emitted" unfolding f [symmetric] by simp
  finally show "verdict emitted \<in> set emitted" using v by simp
  show "\<forall>s\<in>set emitted. severity_rank s \<le> severity_rank (verdict emitted)"
  proof
    fix s assume s: "s \<in> set emitted"
    show "severity_rank s \<le> severity_rank (verdict emitted)"
    proof (cases "informational s")
      case True
      then show ?thesis by (simp add: informational_def)
    next
      case False
      with s have "s \<in> set (y # ys)" unfolding f [symmetric] by simp
      then consider "s = y" | "s \<in> set ys" by auto
      then show ?thesis
        using highest_severity_ge_best [of y ys] highest_severity_ge [of s ys y] v by cases simp_all
    qed
  qed
qed

lemma verdict_informational_only:
  "\<forall>s\<in>set emitted. informational s \<Longrightarrow> verdict emitted = ERROR"
proof -
  assume "\<forall>s\<in>set emitted. informational s"
  then have "filter (\<lambda>s. \<not> informational s) emitted = []" by (simp add: filter_empty_conv)
  then show ?thesis by (simp add: verdict_def)
qed

lemma verdict_drop_informational:
  "informational i \<Longrightarrow> verdict (xs @ i # ys) = verdict (xs @ ys)"
  by (simp add: verdict_def)

text \<open>
  C6, as the code-independent model of section 4.3 has it. The verdict of a check is the
  highest-severity emission under \<open>ERROR > FAIL > WARN > SKIP > PASS > INFO/DEBUG\<close>
  whenever the check emits at least one severity that is not informational: it is one
  of the emitted severities and no emitted severity ranks above it. A check that emits
  nothing, or only \<open>INFO\<close>/\<open>DEBUG\<close>, has verdict \<open>ERROR\<close>. An informational emission
  anywhere in the sequence leaves the verdict as it is without it, so it never raises
  the verdict. \<open>[PASS, WARN, PASS]\<close> has verdict \<open>WARN\<close> and \<open>[WARN, FAIL]\<close> has
  verdict \<open>FAIL\<close>.
\<close>

theorem verdict_precedence:
  "((\<exists>s\<in>set emitted. \<not> informational s) \<longrightarrow>
      verdict emitted \<in> set emitted
      \<and> (\<forall>s\<in>set emitted. severity_rank s \<le> severity_rank (verdict emitted)))
   \<and> ((\<forall>s\<in>set emitted. informational s) \<longrightarrow> verdict emitted = ERROR)
   \<and> (informational i \<longrightarrow> verdict (xs @ i # ys) = verdict (xs @ ys))
   \<and> verdict [PASS, WARN, PASS] = WARN
   \<and> verdict [WARN, FAIL] = FAIL"
proof (intro conjI impI)
  assume a: "\<exists>s\<in>set emitted. \<not> informational s"
  from verdict_substantive(1) [OF a] show "verdict emitted \<in> set emitted" .
  from verdict_substantive(2) [OF a]
  show "\<forall>s\<in>set emitted. severity_rank s \<le> severity_rank (verdict emitted)" .
next
  assume "\<forall>s\<in>set emitted. informational s"
  then show "verdict emitted = ERROR" by (rule verdict_informational_only)
next
  assume "informational i"
  then show "verdict (xs @ i # ys) = verdict (xs @ ys)" by (rule verdict_drop_informational)
next
  show "verdict [PASS, WARN, PASS] = WARN" by (simp add: verdict_def informational_def)
next
  show "verdict [WARN, FAIL] = FAIL" by (simp add: verdict_def informational_def)
qed

theorem verdict_precedence_witness:
  "verdict [PASS, INFO, SKIP] = SKIP
   \<and> verdict [INFO, DEBUG] = ERROR
   \<and> verdict ([WARN] @ INFO # [PASS]) = verdict ([WARN] @ [PASS])"
proof -
  have 1: "\<exists>s\<in>set [PASS, INFO, SKIP]. \<not> informational s" by (simp add: informational_def)
  have 2: "\<forall>s\<in>set [INFO, DEBUG]. informational s" by (simp add: informational_def)
  have 3: "informational INFO" by (simp add: informational_def)
  from verdict_precedence [of "[PASS, INFO, SKIP]"] 1
  have m: "verdict [PASS, INFO, SKIP] \<in> set [PASS, INFO, SKIP]"
    and g: "severity_rank SKIP \<le> severity_rank (verdict [PASS, INFO, SKIP])" by simp_all
  from m g have a: "verdict [PASS, INFO, SKIP] = SKIP" by auto
  from verdict_precedence [of "[INFO, DEBUG]"] 2 have b: "verdict [INFO, DEBUG] = ERROR" by blast
  from verdict_precedence [of _ INFO "[WARN]" "[PASS]"] 3
  have c: "verdict ([WARN] @ INFO # [PASS]) = verdict ([WARN] @ [PASS])" by blast
  from a b c show ?thesis by blast
qed

text \<open>
  The claim as it is written, for every (check, entity) pair, fails where the check
  emits only \<open>INFO\<close>: the verdict is \<open>ERROR\<close>, which the check never emitted.
\<close>

theorem verdict_info_only_counterexample:
  "verdict [INFO] = ERROR \<and> verdict [INFO] \<notin> set [INFO]"
  by (simp add: verdict_def informational_def)

subsection \<open>Fonts that lack a metrics table\<close>

lemma linegaps_missing_tables:
  "sorted_list_of_set ({''hhea'', ''OS/2''} - keys f) =
     (if tbl_OS2 f = None then [''OS/2''] else []) @ (if tbl_hhea f = None then [''hhea''] else [])"
proof -
  have k: "{''hhea'', ''OS/2''} - keys f =
             (if tbl_OS2 f = None then {''OS/2''} else {})
             \<union> (if tbl_hhea f = None then {''hhea''} else {})"
    by (auto simp: keys_def has_table_def)
  show ?thesis unfolding k by simp
qed

lemma vertical_metrics_collect_lacking:
  assumes "\<forall>f\<in>set fs. tbl_OS2 f \<noteq> None \<and> tbl_hhea f \<noteq> None \<longrightarrow> tbl_name f \<noteq> None"
  shows "snd (vertical_metrics_collect fs out m vm) = None"
    and "fst (fst (vertical_metrics_collect fs out m vm)) =
           out @ concat (map (\<lambda>f.
                if tbl_OS2 f = None
                then [(FAIL, Message ''lacks-OS/2''
                         [Str (basename (file_name f)), Lit '' lacks an '', Lit [CHR 0x27],
                          Lit ''OS/2'', Lit [CHR 0x27], Lit '' table.''])]
                else if tbl_hhea f = None
                then [(FAIL, Message ''lacks-hhea''
                         [Str (basename (file_name f)), Lit '' lacks a '', Lit [CHR 0x27],
                          Lit ''hhea'', Lit [CHR 0x27], Lit '' table.''])]
                else []) fs)"
    and "fst (snd (fst (vertical_metrics_collect fs out m vm))) =
           (m \<or> (\<exists>f\<in>set fs. tbl_OS2 f = None \<or> tbl_hhea f = None))"
  using assms
  by (induction fs arbitrary: out m vm) (auto simp: Let_def split: option.splits)

text \<open>
  C2, as the code has it. A font without an OS/2 table makes
  \<open>check_family_win_ascent_and_descent\<close> yield the single outcome \<open>FAIL lacks-OS/2\<close> and
  return. In a family in which some font lacks OS/2 or hhea (and every font that has
  both also has a name table), \<open>check_family_vertical_metrics\<close> yields exactly one
  \<open>FAIL\<close> per font that lacks a table, with code \<open>lacks-OS/2\<close> or \<open>lacks-hhea\<close> and the
  file's base name, and nothing else: the comparison is skipped. \<open>check_linegaps\<close> yields
  one \<open>FAIL\<close> per missing table, with the code \<open>lacks-table\<close> for either table and the
  tag in the text only. In all three the run ends without an exception, and the outcomes
  are given by the presence of the tables and the file name alone: reading a field of a
  missing table would raise \<open>KeyError\<close>, and no metrics value occurs in the result.
\<close>

theorem lacking_metrics_table_fails:
  "(tbl_OS2 ttFont = None \<longrightarrow>
      check_family_win_ascent_and_descent ttFont vm =
        ([(FAIL, Message ''lacks-OS/2'' [Lit ''Font file lacks OS/2 table''])], None))
   \<and> ((\<exists>f\<in>set ttFonts. tbl_OS2 f = None \<or> tbl_hhea f = None)
        \<and> (\<forall>f\<in>set ttFonts. tbl_OS2 f \<noteq> None \<and> tbl_hhea f \<noteq> None \<longrightarrow> tbl_name f \<noteq> None) \<longrightarrow>
      check_family_vertical_metrics ttFonts =
        (concat (map (\<lambda>f.
           if tbl_OS2 f = None
           then [(FAIL, Message ''lacks-OS/2''
                    [Str (basename (file_name f)), Lit '' lacks an '', Lit [CHR 0x27],
                     Lit ''OS/2'', Lit [CHR 0x27], Lit '' table.''])]
           else if tbl_hhea f = None
           then [(FAIL, Message ''lacks-hhea''
                    [Str (basename (file_name f)), Lit '' lacks a '', Lit [CHR 0x27],
                     Lit ''hhea'', Lit [CHR 0x27], Lit '' table.''])]
           else []) ttFonts), None))
   \<and> (tbl_OS2 ttFont = None \<or> tbl_hhea ttFont = None \<longrightarrow>
      check_linegaps ttFont =
        (map (\<lambda>table_tag.
                (FAIL, Message ''lacks-table''
                   [Lit ''Font lacks '', Lit [CHR 0x27], Str table_tag, Lit [CHR 0x27],
                    Lit '' table.'']))
           ((if tbl_OS2 ttFont = None then [''OS/2''] else [])
            @ (if tbl_hhea ttFont = None then [''hhea''] else [])), None))"
proof (intro conjI impI)
  assume "tbl_OS2 ttFont = None"
  then show "check_family_win_ascent_and_descent ttFont vm =
        ([(FAIL, Message ''lacks-OS/2'' [Lit ''Font file lacks OS/2 table''])], None)"
    by (simp add: check_family_win_ascent_and_descent_def)
next
  assume a: "(\<exists>f\<in>set ttFonts. tbl_OS2 f = None \<or> tbl_hhea f = None)
        \<and> (\<forall>f\<in>set ttFonts. tbl_OS2 f \<noteq> None \<and> tbl_hhea f \<noteq> None \<longrightarrow> tbl_name f \<noteq> None)"
  then have ex: "\<exists>f\<in>set ttFonts. tbl_OS2 f = None \<or> tbl_hhea f = None"
    and nm: "\<forall>f\<in>set ttFonts. tbl_OS2 f \<noteq> None \<and> tbl_hhea f \<noteq> None \<longrightarrow> tbl_name f \<noteq> None"
    by blast+
  obtain out m vm e where r: "vertical_metrics_collect ttFonts [] False vm_initial = ((out, m, vm), e)"
    by (metis prod.exhaust)
  from vertical_metrics_collect_lacking [OF nm, of "[]" False vm_initial] ex r
  show "check_family_vertical_metrics ttFonts =
        (concat (map (\<lambda>f.
           if tbl_OS2 f = None
           then [(FAIL, Message ''lacks-OS/2''
                    [Str (basename (file_name f)), Lit '' lacks an '', Lit [CHR 0x27],
                     Lit ''OS/2'', Lit [CHR 0x27], Lit '' table.''])]
           else if tbl_hhea f = None
           then [(FAIL, Message ''lacks-hhea''
                    [Str (basename (file_name f)), Lit '' lacks a '', Lit [CHR 0x27],
                     Lit ''hhea'', Lit [CHR 0x27], Lit '' table.''])]
           else []) ttFonts), None)"
    by (auto simp: check_family_vertical_metrics_def)
next
  assume "tbl_OS2 ttFont = None \<or> tbl_hhea ttFont = None"
  then show "check_linegaps ttFont =
        (map (\<lambda>table_tag.
                (FAIL, Message ''lacks-table''
                   [Lit ''Font lacks '', Lit [CHR 0x27], Str table_tag, Lit [CHR 0x27],
                    Lit '' table.'']))
           ((if tbl_OS2 ttFont = None then [''OS/2''] else [])
            @ (if tbl_hhea ttFont = None then [''hhea''] else [])), None)"
    unfolding check_linegaps_def Let_def linegaps_missing_tables by auto
qed

theorem lacking_metrics_table_fails_witness:
  "check_family_win_ascent_and_descent (example_font\<lparr>tbl_OS2 := None\<rparr>) \<lparr>ymin = - 250, ymax = 900\<rparr> =
     ([(FAIL, Message ''lacks-OS/2'' [Lit ''Font file lacks OS/2 table''])], None)
   \<and> check_family_vertical_metrics [example_font, example_font\<lparr>tbl_hhea := None\<rparr>] =
       ([(FAIL, Message ''lacks-hhea''
            [Str ''Example-Regular.ttf'', Lit '' lacks a '', Lit [CHR 0x27],
             Lit ''hhea'', Lit [CHR 0x27], Lit '' table.''])], None)
   \<and> check_linegaps (example_font\<lparr>tbl_OS2 := None\<rparr>) =
       ([(FAIL, Message ''lacks-table''
            [Lit ''Font lacks '', Lit [CHR 0x27], Str ''OS/2'', Lit [CHR 0x27],
             Lit '' table.''])], None)"
  using lacking_metrics_table_fails
          [of "example_font\<lparr>tbl_OS2 := None\<rparr>"
              "\<lparr>ymin = - 250, ymax = 900\<rparr>"
              "[example_font, example_font\<lparr>tbl_hhea := None\<rparr>]"]
  by (simp add: example_font_def basename_def)

text \<open>
  The claim as it is written fails for \<open>check_linegaps\<close>: the message code is
  \<open>lacks-table\<close> whichever table is missing, so the code does not identify the table.
\<close>

theorem linegaps_code_counterexample:
  "map (\<lambda>r. msg_code (snd r)) (outcomes_of (check_linegaps (example_font\<lparr>tbl_OS2 := None\<rparr>)))
     = [Some ''lacks-table'']
   \<and> map (\<lambda>r. msg_code (snd r)) (outcomes_of (check_linegaps (example_font\<lparr>tbl_hhea := None\<rparr>)))
     = [Some ''lacks-table'']"
  unfolding check_linegaps_def Let_def linegaps_missing_tables
  by (simp add: example_font_def)

subsection \<open>Drawing on a copy: \<open>check_caps_vertically_centered\<close>\<close>

lemma draw_cases:
  "draw h a g = (Inl KeyError, h) \<and> map_of (getGlyphSet (objs h a)) g = None
   \<or> (\<exists>gl. map_of (getGlyphSet (objs h a)) g = Some gl
        \<and> draw h a g = (Inr (pen_bounds gl),
             h\<lparr>objs := (objs h)(a := (objs h a)\<lparr>drawn := drawn (objs h a) @ [g]\<rparr>)\<rparr>))"
  by (cases "map_of (getGlyphSet (objs h a)) g") (simp_all add: draw_def)

lemma draw_keeps:
  "getGlyphSet (objs (snd (draw h a g)) b) = getGlyphSet (objs h b)"
  "tbl_head (objs (snd (draw h a g)) b) = tbl_head (objs h b)"
  "tbl_hhea (objs (snd (draw h a g)) b) = tbl_hhea (objs h b)"
  "tbl_OS2 (objs (snd (draw h a g)) b) = tbl_OS2 (objs h b)"
  "next_addr (snd (draw h a g)) = next_addr h"
  by (auto simp: draw_def split: option.splits)


lemma draw_error: "fst (draw h a g) = Inl e \<Longrightarrow> e = KeyError"
  by (auto simp: draw_def split: option.splits)

lemma caps_draw_loop_length:
  "caps_draw_loop h c names highs lows = (Inr (hs, ls), h') \<Longrightarrow>
     length hs = length highs + length names \<and> length ls = length lows + length names"
proof (induction names arbitrary: h highs lows)
  case Nil
  then show ?case by simp
next
  case (Cons n names)
  then show ?case
    by (cases "draw h c n") (auto split: sum.splits option.splits)
qed

lemma caps_draw_loop_error:
  "caps_draw_loop h c names highs lows = (Inl e, h') \<Longrightarrow> e = KeyError \<or> e = TypeError"
proof (induction names arbitrary: h highs lows)
  case Nil
  then show ?case by simp
next
  case (Cons n names)
  then show ?case
    using draw_error [of h c n]
    by (cases "draw h c n") (auto split: sum.splits option.splits)
qed

lemma caps_draw_loop_keeps:
  "getGlyphSet (objs (snd (caps_draw_loop h c names highs lows)) b) = getGlyphSet (objs h b)"
  "tbl_head (objs (snd (caps_draw_loop h c names highs lows)) b) = tbl_head (objs h b)"
  "tbl_hhea (objs (snd (caps_draw_loop h c names highs lows)) b) = tbl_hhea (objs h b)"
proof (induction names arbitrary: h highs lows)
  case Nil
  { case 1 show ?case by simp }
  { case 2 show ?case by simp }
  { case 3 show ?case by simp }
next
  case (Cons n names)
  { case 1 show ?case using Cons(1) draw_keeps(1) [of h c n b]
      by (cases "draw h c n") (auto split: sum.splits option.splits) }
  { case 2 show ?case using Cons(2) draw_keeps(2) [of h c n b]
      by (cases "draw h c n") (auto split: sum.splits option.splits) }
  { case 3 show ?case using Cons(3) draw_keeps(3) [of h c n b]
      by (cases "draw h c n") (auto split: sum.splits option.splits) }
qed

lemma caps_draw_loop_ok:
  "\<forall>n\<in>set names. \<exists>g b. map_of (getGlyphSet (objs h c)) n = Some g \<and> pen_bounds g = Some b \<Longrightarrow>
     \<exists>hs ls h'. caps_draw_loop h c names highs lows = (Inr (hs, ls), h')"
proof (induction names arbitrary: h highs lows)
  case Nil
  show ?case by simp
next
  case (Cons n names)
  from Cons.prems obtain g b where g: "map_of (getGlyphSet (objs h c)) n = Some g" "pen_bounds g = Some b"
    by auto
  obtain x1 x2 x3 x4 where b: "b = (x1, x2, x3, x4)" by (cases b) auto
  let ?h = "h\<lparr>objs := (objs h)(c := (objs h c)\<lparr>drawn := drawn (objs h c) @ [n]\<rparr>)\<rparr>"
  have d: "draw h c n = (Inr (Some (x1, x2, x3, x4)), ?h)" using g b by (simp add: draw_def)
  have "\<forall>n\<in>set names. \<exists>g b. map_of (getGlyphSet (objs ?h c)) n = Some g \<and> pen_bounds g = Some b"
    using Cons.prems by simp
  from Cons.IH [OF this] show ?case using d by simp
qed


lemma py_truediv_12: "length xs = 12 \<Longrightarrow> py_truediv s (length xs) = Inr (s / 12)"
  by (simp add: py_truediv_def)

lemma length_SOME_UPPERCASE_GLYPHS: "length SOME_UPPERCASE_GLYPHS = 12"
  by (simp add: SOME_UPPERCASE_GLYPHS_def)

lemma caps_shape:
  "fst (check_caps_vertically_centered h a) \<in>
     {([(SKIP, Message ''lacks-ascii''
          [Lit ''The implementation of this check relies on a few samples of uppercase latin characters that are not available in this font.''])], None),
      ([(WARN, Message ''vertical-metrics-not-centered''
          [Lit ''Uppercase glyphs are not vertically centered in the em box.''])], None),
      ([(PASS, Plain [Lit ''Uppercase glyphs are vertically centered in the em box.''])], None),
      ([], Some KeyError), ([], Some TypeError)}"
proof -
  obtain c h1 where dc: "deepcopy h a = (c, h1)" by (cases "deepcopy h a")
  show ?thesis
  proof (cases "\<exists>glyphname \<in> set SOME_UPPERCASE_GLYPHS. glyphname \<notin> set (map fst (getGlyphSet (objs h1 c)))")
    case True
    then show ?thesis unfolding check_caps_vertically_centered_def dc by (simp del: set_map)
  next
    case False
    obtain r h2 where loop: "caps_draw_loop h1 c SOME_UPPERCASE_GLYPHS [] [] = (r, h2)"
      by (cases "caps_draw_loop h1 c SOME_UPPERCASE_GLYPHS [] []")
    show ?thesis
    proof (cases r)
      case (Inl e)
      with loop caps_draw_loop_error have "e = KeyError \<or> e = TypeError" by blast
      with False loop Inl show ?thesis
        unfolding check_caps_vertically_centered_def dc by (auto simp del: set_map)
    next
      case (Inr p)
      obtain hs ls where p: "p = (hs, ls)" by (cases p)
      from caps_draw_loop_length [OF loop [unfolded Inr p]]
      have len: "length hs = 12" "length ls = 12" by (simp_all add: length_SOME_UPPERCASE_GLYPHS)
      show ?thesis
        using False loop Inr p
        unfolding check_caps_vertically_centered_def dc
        by (simp del: set_map add: py_truediv_12 [OF len(1)] py_truediv_12 [OF len(2)] Let_def
              split: option.splits)
    qed
  qed
qed


lemma deepcopy_obj:
  assumes "deepcopy h a = (c, h1)"
  shows "c = next_addr h" and "objs h1 c = objs h a" and "next_addr h1 = Suc (next_addr h)"
    and "b \<noteq> c \<Longrightarrow> objs h1 b = objs h b"
  using assms by (auto simp: deepcopy_def)

text \<open>
  C10, as the code has it. The division by the length of the point lists is never a
  division by zero: whenever the drawing loop over the twelve sample glyphs completes,
  both lists hold exactly twelve elements. If any sample glyph is absent from the glyph
  set the body yields the single outcome \<open>SKIP lacks-ascii\<close> and returns. Every run that
  ends without an exception yields exactly one outcome, \<open>SKIP\<close>, \<open>WARN\<close> or \<open>PASS\<close>; this
  is the case, with \<open>WARN\<close> or \<open>PASS\<close>, whenever all sample glyphs are present and draw
  at least one point and the font has its head and hhea tables.
\<close>

theorem caps_vertically_centered_safe:
  "error_of (fst (check_caps_vertically_centered h ttFont)) \<noteq> Some ZeroDivisionError
   \<and> (\<forall>h1 c hs ls h2.
         caps_draw_loop h1 c SOME_UPPERCASE_GLYPHS [] [] = (Inr (hs, ls), h2) \<longrightarrow>
         length hs = 12 \<and> length ls = 12)
   \<and> ((\<exists>g\<in>set SOME_UPPERCASE_GLYPHS. g \<notin> fst ` set (getGlyphSet (objs h ttFont))) \<longrightarrow>
        fst (check_caps_vertically_centered h ttFont) =
          ([(SKIP, Message ''lacks-ascii''
               [Lit ''The implementation of this check relies on a few samples of uppercase latin characters that are not available in this font.''])],
           None))
   \<and> (error_of (fst (check_caps_vertically_centered h ttFont)) = None \<longrightarrow>
        (\<exists>sev msg. outcomes_of (fst (check_caps_vertically_centered h ttFont)) = [(sev, msg)]
           \<and> sev \<in> {SKIP, WARN, PASS}))
   \<and> ((\<forall>g\<in>set SOME_UPPERCASE_GLYPHS.
          \<exists>gl b. map_of (getGlyphSet (objs h ttFont)) g = Some gl \<and> pen_bounds gl = Some b)
        \<and> tbl_head (objs h ttFont) \<noteq> None \<and> tbl_hhea (objs h ttFont) \<noteq> None \<longrightarrow>
        (\<exists>sev msg. fst (check_caps_vertically_centered h ttFont) = ([(sev, msg)], None)
           \<and> sev \<in> {WARN, PASS}))"
proof (intro conjI allI impI)
  show "error_of (fst (check_caps_vertically_centered h ttFont)) \<noteq> Some ZeroDivisionError"
    using caps_shape [of h ttFont] by auto
next
  fix h1 c hs ls h2
  assume "caps_draw_loop h1 c SOME_UPPERCASE_GLYPHS [] [] = (Inr (hs, ls), h2)"
  from caps_draw_loop_length [OF this]
  show "length hs = 12" and "length ls = 12" by (simp_all add: length_SOME_UPPERCASE_GLYPHS)
next
  assume m: "\<exists>g\<in>set SOME_UPPERCASE_GLYPHS. g \<notin> fst ` set (getGlyphSet (objs h ttFont))"
  obtain c h1 where dc: "deepcopy h ttFont = (c, h1)" by (cases "deepcopy h ttFont")
  from deepcopy_obj(2) [OF dc] have "objs h1 c = objs h ttFont" .
  with m show "fst (check_caps_vertically_centered h ttFont) =
          ([(SKIP, Message ''lacks-ascii''
               [Lit ''The implementation of this check relies on a few samples of uppercase latin characters that are not available in this font.''])],
           None)"
    unfolding check_caps_vertically_centered_def dc by simp
next
  assume "error_of (fst (check_caps_vertically_centered h ttFont)) = None"
  then show "\<exists>sev msg. outcomes_of (fst (check_caps_vertically_centered h ttFont)) = [(sev, msg)]
           \<and> sev \<in> {SKIP, WARN, PASS}"
    using caps_shape [of h ttFont] by auto
next
  assume a: "(\<forall>g\<in>set SOME_UPPERCASE_GLYPHS.
          \<exists>gl b. map_of (getGlyphSet (objs h ttFont)) g = Some gl \<and> pen_bounds gl = Some b)
        \<and> tbl_head (objs h ttFont) \<noteq> None \<and> tbl_hhea (objs h ttFont) \<noteq> None"
  obtain c h1 where dc: "deepcopy h ttFont = (c, h1)" by (cases "deepcopy h ttFont")
  from deepcopy_obj(2) [OF dc] have c: "objs h1 c = objs h ttFont" .
  have keep: "tbl_hhea (objs h1 ttFont) = tbl_hhea (objs h ttFont)"
    using deepcopy_obj(2) [OF dc] deepcopy_obj(4) [OF dc, of ttFont] by (cases "ttFont = c") auto
  from a c have g: "\<forall>n\<in>set SOME_UPPERCASE_GLYPHS.
      \<exists>gl b. map_of (getGlyphSet (objs h1 c)) n = Some gl \<and> pen_bounds gl = Some b" by simp
  from caps_draw_loop_ok [OF g] obtain hs ls h2
    where loop: "caps_draw_loop h1 c SOME_UPPERCASE_GLYPHS [] [] = (Inr (hs, ls), h2)" by blast
  from caps_draw_loop_length [OF loop]
  have len: "length hs = 12" "length ls = 12" by (simp_all add: length_SOME_UPPERCASE_GLYPHS)
  have h2: "h2 = snd (caps_draw_loop h1 c SOME_UPPERCASE_GLYPHS [] [])" using loop by simp
  have head: "tbl_head (objs h2 c) \<noteq> None" unfolding h2 caps_draw_loop_keeps using a c by simp
  have hhea: "tbl_hhea (objs h2 ttFont) \<noteq> None" unfolding h2 caps_draw_loop_keeps using a keep by simp
  have present: "\<not> (\<exists>glyphname\<in>set SOME_UPPERCASE_GLYPHS. glyphname \<notin> set (map fst (getGlyphSet (objs h1 c))))"
  proof
    assume "\<exists>glyphname\<in>set SOME_UPPERCASE_GLYPHS. glyphname \<notin> set (map fst (getGlyphSet (objs h1 c)))"
    then obtain n where n: "n \<in> set SOME_UPPERCASE_GLYPHS" "n \<notin> set (map fst (getGlyphSet (objs h1 c)))"
      by blast
    from n(2) have "map_of (getGlyphSet (objs h1 c)) n = None" by (simp add: map_of_eq_None_iff)
    with g n(1) show False by auto
  qed
  from head obtain hd where hd: "tbl_head (objs h2 c) = Some hd" by auto
  from hhea obtain hh where hh: "tbl_hhea (objs h2 ttFont) = Some hh" by auto
  show "\<exists>sev msg. fst (check_caps_vertically_centered h ttFont) = ([(sev, msg)], None)
           \<and> sev \<in> {WARN, PASS}"
    using present loop hd hh
    unfolding check_caps_vertically_centered_def dc
    by (simp del: set_map add: py_truediv_12 [OF len(1)] py_truediv_12 [OF len(2)] Let_def)
qed

lemma example_glyphs:
  "\<forall>g\<in>set SOME_UPPERCASE_GLYPHS.
          \<exists>gl b. map_of (getGlyphSet example_font) g = Some gl \<and> pen_bounds gl = Some b"
  by (simp add: SOME_UPPERCASE_GLYPHS_def example_font_def example_glyph_def)

theorem caps_vertically_centered_safe_witness:
  "error_of (fst (check_caps_vertically_centered example_heap 0)) \<noteq> Some ZeroDivisionError
   \<and> (\<exists>sev msg. fst (check_caps_vertically_centered example_heap 0) = ([(sev, msg)], None)
           \<and> sev \<in> {WARN, PASS})
   \<and> fst (check_caps_vertically_centered
            (example_heap\<lparr>objs := \<lambda>a. example_font\<lparr>getGlyphSet := [(''A'', example_glyph)]\<rparr>\<rparr>) 0) =
          ([(SKIP, Message ''lacks-ascii''
               [Lit ''The implementation of this check relies on a few samples of uppercase latin characters that are not available in this font.''])],
           None)"
proof -
  have 1: "(\<forall>g\<in>set SOME_UPPERCASE_GLYPHS.
          \<exists>gl b. map_of (getGlyphSet (objs example_heap 0)) g = Some gl \<and> pen_bounds gl = Some b)
        \<and> tbl_head (objs example_heap 0) \<noteq> None \<and> tbl_hhea (objs example_heap 0) \<noteq> None"
    using example_glyphs by (simp add: example_heap_def) (simp add: example_font_def)
  have 2: "\<exists>g\<in>set SOME_UPPERCASE_GLYPHS.
     g \<notin> fst ` set (getGlyphSet (objs (example_heap\<lparr>objs := \<lambda>a. example_font\<lparr>getGlyphSet := [(''A'', example_glyph)]\<rparr>\<rparr>) 0))"
    by (simp add: SOME_UPPERCASE_GLYPHS_def)
  from caps_vertically_centered_safe [of example_heap 0] 1
       caps_vertically_centered_safe
         [of "example_heap\<lparr>objs := \<lambda>a. example_font\<lparr>getGlyphSet := [(''A'', example_glyph)]\<rparr>\<rparr>" 0] 2
  show ?thesis by blast
qed

text \<open>
  The claim as it is written, one outcome on every run, fails on a font that has the
  twelve glyphs but no hhea table: \<open>ttFont["hhea"]\<close> raises and nothing is yielded.
\<close>

theorem caps_missing_hhea_counterexample:
  "fst (check_caps_vertically_centered
          (example_heap\<lparr>objs := \<lambda>a. example_font\<lparr>tbl_hhea := None\<rparr>\<rparr>) 0) = ([], Some KeyError)"
  by (simp add: check_caps_vertically_centered_def deepcopy_def draw_def example_heap_def
        example_font_def example_glyph_def SOME_UPPERCASE_GLYPHS_def py_truediv_def)

subsection \<open>Tabular figures\<close>

lemma ids_of_width_append: "ids_of_width w (xs @ ys) = ids_of_width w xs @ ids_of_width w ys"
  by (simp add: ids_of_width_def)

lemma ids_of_width_Cons:
  "ids_of_width w ((n, g) # xs) = (if width g = w then n # ids_of_width w xs else ids_of_width w xs)"
  by (simp add: ids_of_width_def)

lemma ids_of_width_empty_iff:
  "ids_of_width w items = [] \<longleftrightarrow> w \<notin> (\<lambda>(n, g). width g) ` set items"
  by (auto simp: ids_of_width_def filter_empty_conv)

lemma tnum_widths_add_inv:
  assumes "distinct (map fst d)"
  shows "distinct (map fst (tnum_widths_add xs d))"
    and "map_of (tnum_widths_add xs d) w =
           (case map_of d w of
              None \<Rightarrow> if ids_of_width w xs = [] then None else Some (ids_of_width w xs)
            | Some l \<Rightarrow> Some (l @ ids_of_width w xs))"
  using assms
proof (induction xs arbitrary: d)
  case Nil
  { case 1 then show ?case by simp }
  { case 2 then show ?case by (simp add: ids_of_width_def split: option.splits) }
next
  case (Cons x xs)
  obtain n g where x: "x = (n, g)" by (cases x)
  { case 1
    then show ?case using Cons(1) x
      by (auto simp: distinct_update split: option.splits) }
  { case 2
    show ?case
    proof (cases "map_of d (width g)")
      case None
      have "distinct (map fst (AList.update (width g) [n] d))" using 2 by (simp add: distinct_update)
      from Cons(2) [OF this] None x show ?thesis
        by (auto simp: update_conv' ids_of_width_Cons split: option.splits)
    next
      case (Some l)
      have "distinct (map fst (AList.update (width g) (l @ [n]) d))"
        using 2 by (simp add: distinct_update)
      from Cons(2) [OF this] Some x show ?thesis
        by (auto simp: update_conv' ids_of_width_Cons split: option.splits)
    qed }
qed

lemma tnum_widths_collect_inv:
  assumes "distinct (map fst d)"
  shows "distinct (map fst (tnum_widths_collect fs d))"
    and "map_of (tnum_widths_collect fs d) w =
           (case map_of d w of
              None \<Rightarrow> if ids_of_width w (family_tnum_glyphs fs) = [] then None
                       else Some (ids_of_width w (family_tnum_glyphs fs))
            | Some l \<Rightarrow> Some (l @ ids_of_width w (family_tnum_glyphs fs)))"
  using assms
proof (induction fs arbitrary: d)
  case Nil
  { case 1 then show ?case by simp }
  { case 2 then show ?case by (simp add: family_tnum_glyphs_def ids_of_width_def split: option.splits) }
next
  case (Cons f fs)
  { case 1
    then show ?case using Cons(1) tnum_widths_add_inv(1) by simp }
  { case 2
    then have d': "distinct (map fst (tnum_widths_add (tnum_glyphs f) d))"
      by (rule tnum_widths_add_inv(1))
    have f: "family_tnum_glyphs (f # fs) = tnum_glyphs f @ family_tnum_glyphs fs"
      by (simp add: family_tnum_glyphs_def)
    show ?case
      using Cons(2) [OF d'] tnum_widths_add_inv(2) [OF 2, of "tnum_glyphs f" w]
      by (auto simp: f ids_of_width_append split: option.splits if_splits) }
qed

lemma tnum_widths_map_of:
  "map_of (tnum_widths_collect fs []) w =
     (if ids_of_width w (family_tnum_glyphs fs) = [] then None
      else Some (ids_of_width w (family_tnum_glyphs fs)))"
  using tnum_widths_collect_inv(2) [of "[]" fs w] by simp

lemma tnum_widths_distinct: "distinct (map fst (tnum_widths_collect fs []))"
  using tnum_widths_collect_inv(1) [of "[]" fs] by simp

lemma tnum_widths_keys:
  "fst ` set (tnum_widths_collect fs []) = (\<lambda>(n, g). width g) ` set (family_tnum_glyphs fs)"
proof -
  have "w \<in> fst ` set (tnum_widths_collect fs []) \<longleftrightarrow>
        w \<in> (\<lambda>(n, g). width g) ` set (family_tnum_glyphs fs)" for w
  proof -
    have "w \<in> fst ` set (tnum_widths_collect fs []) \<longleftrightarrow> map_of (tnum_widths_collect fs []) w \<noteq> None"
      by (simp add: map_of_eq_None_iff)
    also have "\<dots> \<longleftrightarrow> ids_of_width w (family_tnum_glyphs fs) \<noteq> []"
      by (simp add: tnum_widths_map_of)
    also have "\<dots> \<longleftrightarrow> w \<in> (\<lambda>(n, g). width g) ` set (family_tnum_glyphs fs)"
      by (simp add: ids_of_width_empty_iff)
    finally show ?thesis .
  qed
  then show ?thesis by blast
qed

lemma tnum_widths_entry:
  "(w, gs) \<in> set (tnum_widths_collect fs []) \<longleftrightarrow>
     gs \<noteq> [] \<and> gs = ids_of_width w (family_tnum_glyphs fs)"
proof -
  have "(w, gs) \<in> set (tnum_widths_collect fs []) \<longleftrightarrow> map_of (tnum_widths_collect fs []) w = Some gs"
    using tnum_widths_distinct [of fs] by simp
  then show ?thesis by (auto simp: tnum_widths_map_of)
qed

lemma most_common_inv:
  "most_common d m c = (m', c') \<Longrightarrow>
     (\<forall>(w, gs)\<in>set d. length gs \<le> m') \<and> m \<le> m'
     \<and> ((c' = c \<and> m' = m) \<or> (\<exists>w gs. c' = Some w \<and> (w, gs) \<in> set d \<and> length gs = m'))"
proof (induction d arbitrary: m c)
  case Nil
  then show ?case by simp
next
  case (Cons x d)
  obtain w gs where x: "x = (w, gs)" by (cases x)
  show ?case
  proof (cases "length gs > m")
    case True
    with Cons.prems x have "most_common d (length gs) (Some w) = (m', c')" by simp
    from Cons.IH [OF this] True x show ?thesis by auto
  next
    case False
    with Cons.prems x have "most_common d m c = (m', c')" by simp
    from Cons.IH [OF this] False x show ?thesis by auto
  qed
qed


lemma tnum_widths_length:
  "length (map fst (tnum_widths_collect fs [])) =
     card ((\<lambda>(n, g). width g) ` set (family_tnum_glyphs fs))"
proof -
  have "card (set (map fst (tnum_widths_collect fs []))) = length (map fst (tnum_widths_collect fs []))"
    using tnum_widths_distinct [of fs] by (rule distinct_card)
  then show ?thesis using tnum_widths_keys [of fs] by simp
qed

text \<open>
  C3. When the \<open>.tnum\<close> glyphs of the family have more than one distinct advance width,
  the check yields exactly one outcome, a \<open>FAIL\<close> with code \<open>inconsistent-widths\<close>. The
  width \<open>w\<close> it names as most common is one of the widths and no width has more \<open>.tnum\<close>
  glyphs than \<open>w\<close>; the reported dictionary has exactly the other distinct widths as
  keys, each once, each with the names of the glyphs of that width. When all \<open>.tnum\<close>
  widths are equal, or there is no \<open>.tnum\<close> glyph, the check yields exactly one \<open>PASS\<close>.
\<close>

theorem tnum_horizontal_metrics_outcome:
  "(1 < card ((\<lambda>(n, g). width g) ` set (family_tnum_glyphs RIBBI_ttFonts)) \<longrightarrow>
      (\<exists>w reported.
         com_google_fonts_check_family_tnum_horizontal_metrics RIBBI_ttFonts =
           ([(FAIL, Message ''inconsistent-widths''
                [Lit ''The most common tabular glyph width is '', Opt_num (Some w),
                 Lit ''. But there are other tabular glyphs with different widths such as the following ones:'',
                 Lit [CHR 0x0A, CHR 0x09], Widths reported, Lit ''.''])], None)
         \<and> w \<in> (\<lambda>(n, g). width g) ` set (family_tnum_glyphs RIBBI_ttFonts)
         \<and> (\<forall>w'. length (ids_of_width w' (family_tnum_glyphs RIBBI_ttFonts))
                  \<le> length (ids_of_width w (family_tnum_glyphs RIBBI_ttFonts)))
         \<and> distinct (map fst reported)
         \<and> fst ` set reported = (\<lambda>(n, g). width g) ` set (family_tnum_glyphs RIBBI_ttFonts) - {w}
         \<and> (\<forall>(w', gs)\<in>set reported. gs = ids_of_width w' (family_tnum_glyphs RIBBI_ttFonts))))
   \<and> (card ((\<lambda>(n, g). width g) ` set (family_tnum_glyphs RIBBI_ttFonts)) \<le> 1 \<longrightarrow>
        com_google_fonts_check_family_tnum_horizontal_metrics RIBBI_ttFonts =
          ([(PASS, Plain [Lit ''OK''])], None))"
proof (intro conjI impI)
  let ?items = "family_tnum_glyphs RIBBI_ttFonts"
  let ?W = "(\<lambda>(n, g). width g) ` set ?items"
  let ?d = "tnum_widths_collect RIBBI_ttFonts []"
  assume many: "1 < card ?W"
  then have len: "1 < length (map fst ?d)" by (simp only: tnum_widths_length)
  obtain m' c' where mc: "most_common ?d 0 None = (m', c')" by (cases "most_common ?d 0 None")
  from most_common_inv [OF mc]
  have le: "\<forall>(w, gs)\<in>set ?d. length gs \<le> m'"
    and alt: "(c' = None \<and> m' = 0) \<or> (\<exists>w gs. c' = Some w \<and> (w, gs) \<in> set ?d \<and> length gs = m')"
    by blast+
  from len obtain w0 gs0 where e0: "(w0, gs0) \<in> set ?d" by (cases ?d) auto
  then have "gs0 \<noteq> []" using tnum_widths_entry [of w0 gs0 RIBBI_ttFonts] by blast
  moreover from le e0 have "length gs0 \<le> m'" by blast
  ultimately have "m' \<noteq> 0" by (cases gs0) auto
  with alt obtain w gs where c': "c' = Some w" and e: "(w, gs) \<in> set ?d" and m': "length gs = m'"
    by blast
  from e have gs: "gs = ids_of_width w ?items" using tnum_widths_entry [of w gs RIBBI_ttFonts] by blast
  from e have wk: "w \<in> fst ` set ?d" by force
  let ?rep = "AList.delete w ?d"
  have run: "com_google_fonts_check_family_tnum_horizontal_metrics RIBBI_ttFonts =
           ([(FAIL, Message ''inconsistent-widths''
                [Lit ''The most common tabular glyph width is '', Opt_num (Some w),
                 Lit ''. But there are other tabular glyphs with different widths such as the following ones:'',
                 Lit [CHR 0x0A, CHR 0x09], Widths ?rep, Lit ''.''])], None)"
    using len mc c' wk
    by (simp add: com_google_fonts_check_family_tnum_horizontal_metrics_def py_del_def)
  have wW: "w \<in> ?W" using wk by (simp only: tnum_widths_keys)
  have most: "\<forall>w'. length (ids_of_width w' ?items) \<le> length (ids_of_width w ?items)"
  proof
    fix w'
    show "length (ids_of_width w' ?items) \<le> length (ids_of_width w ?items)"
    proof (cases "ids_of_width w' ?items = []")
      case True
      then show ?thesis by simp
    next
      case False
      then have "(w', ids_of_width w' ?items) \<in> set ?d" by (simp add: tnum_widths_entry)
      with le have "length (ids_of_width w' ?items) \<le> m'" by blast
      then show ?thesis using m' gs by simp
    qed
  qed
  have dist: "distinct (map fst ?rep)" using tnum_widths_distinct by (rule distinct_delete)
  have keys: "fst ` set ?rep = ?W - {w}"
  proof -
    have "fst ` set ?rep = set (map fst ?rep)" by simp
    also have "\<dots> = set (map fst ?d) - {w}" by (simp only: delete_keys set_removeAll)
    also have "\<dots> = ?W - {w}" using tnum_widths_keys [of RIBBI_ttFonts] by simp
    finally show ?thesis .
  qed
  have sub: "set ?rep \<subseteq> set ?d" by (auto simp: AList.delete_eq)
  have ent: "\<forall>(w', gs)\<in>set ?rep. gs = ids_of_width w' ?items"
    using sub by (auto simp: tnum_widths_entry)
  from run wW most dist keys ent
  show "\<exists>w reported.
         com_google_fonts_check_family_tnum_horizontal_metrics RIBBI_ttFonts =
           ([(FAIL, Message ''inconsistent-widths''
                [Lit ''The most common tabular glyph width is '', Opt_num (Some w),
                 Lit ''. But there are other tabular glyphs with different widths such as the following ones:'',
                 Lit [CHR 0x0A, CHR 0x09], Widths reported, Lit ''.''])], None)
         \<and> w \<in> ?W
         \<and> (\<forall>w'. length (ids_of_width w' ?items) \<le> length (ids_of_width w ?items))
         \<and> distinct (map fst reported)
         \<and> fst ` set reported = ?W - {w}
         \<and> (\<forall>(w', gs)\<in>set reported. gs = ids_of_width w' ?items)"
    by blast
next
  assume "card ((\<lambda>(n, g). width g) ` set (family_tnum_glyphs RIBBI_ttFonts)) \<le> 1"
  then have "\<not> 1 < length (map fst (tnum_widths_collect RIBBI_ttFonts []))"
    by (simp only: tnum_widths_length)
  then show "com_google_fonts_check_family_tnum_horizontal_metrics RIBBI_ttFonts =
          ([(PASS, Plain [Lit ''OK''])], None)"
    by (simp add: com_google_fonts_check_family_tnum_horizontal_metrics_def)
qed


lemma example_tnum_family:
  "family_tnum_glyphs [example_tnum_regular, example_tnum_bold] =
     [(''zero.tnum'', \<lparr>width = 600, pen_bounds = None\<rparr>),
      (''one.tnum'', \<lparr>width = 600, pen_bounds = None\<rparr>),
      (''zero.tnum'', \<lparr>width = 620, pen_bounds = None\<rparr>),
      (''one.tnum'', \<lparr>width = 600, pen_bounds = None\<rparr>)]"
  by (simp add: family_tnum_glyphs_def tnum_glyphs_def example_tnum_regular_def
        example_tnum_bold_def example_font_def endswith_def)

theorem tnum_horizontal_metrics_outcome_witness:
  "(\<exists>w reported.
      com_google_fonts_check_family_tnum_horizontal_metrics [example_tnum_regular, example_tnum_bold] =
        ([(FAIL, Message ''inconsistent-widths''
             [Lit ''The most common tabular glyph width is '', Opt_num (Some w),
              Lit ''. But there are other tabular glyphs with different widths such as the following ones:'',
              Lit [CHR 0x0A, CHR 0x09], Widths reported, Lit ''.''])], None)
      \<and> w = 600 \<and> fst ` set reported = {620})
   \<and> com_google_fonts_check_family_tnum_horizontal_metrics [example_tnum_regular] =
        ([(PASS, Plain [Lit ''OK''])], None)"
proof -
  let ?two = "[example_tnum_regular, example_tnum_bold]"
  have W: "(\<lambda>(n, g). width g) ` set (family_tnum_glyphs ?two) = {600, 620}"
    unfolding example_tnum_family by auto
  have 1: "1 < card ((\<lambda>(n, g). width g) ` set (family_tnum_glyphs ?two))"
    unfolding W by simp
  have ids: "length (ids_of_width 600 (family_tnum_glyphs ?two)) = 3"
     "length (ids_of_width 620 (family_tnum_glyphs ?two)) = 1"
    unfolding example_tnum_family by (simp_all add: ids_of_width_def)
  from tnum_horizontal_metrics_outcome [of ?two] 1
  obtain w reported where r:
    "com_google_fonts_check_family_tnum_horizontal_metrics ?two =
        ([(FAIL, Message ''inconsistent-widths''
             [Lit ''The most common tabular glyph width is '', Opt_num (Some w),
              Lit ''. But there are other tabular glyphs with different widths such as the following ones:'',
              Lit [CHR 0x0A, CHR 0x09], Widths reported, Lit ''.''])], None)"
    and w: "w \<in> {600, 620}"
    and most: "\<forall>w'. length (ids_of_width w' (family_tnum_glyphs ?two))
                  \<le> length (ids_of_width w (family_tnum_glyphs ?two))"
    and keys: "fst ` set reported = {600, 620} - {w}"
    unfolding W by blast
  from most [rule_format, of 600] ids w have w600: "w = 600" by auto
  with keys have "fst ` set reported = {620}" by auto
  with r w600 have a: "\<exists>w reported.
      com_google_fonts_check_family_tnum_horizontal_metrics ?two =
        ([(FAIL, Message ''inconsistent-widths''
             [Lit ''The most common tabular glyph width is '', Opt_num (Some w),
              Lit ''. But there are other tabular glyphs with different widths such as the following ones:'',
              Lit [CHR 0x0A, CHR 0x09], Widths reported, Lit ''.''])], None)
      \<and> w = 600 \<and> fst ` set reported = {620}" by blast
  have "family_tnum_glyphs [example_tnum_regular] =
     [(''zero.tnum'', \<lparr>width = 600, pen_bounds = None\<rparr>),
      (''one.tnum'', \<lparr>width = 600, pen_bounds = None\<rparr>)]"
    by (simp add: family_tnum_glyphs_def tnum_glyphs_def example_tnum_regular_def
        example_font_def endswith_def)
  then have "card ((\<lambda>(n, g). width g) ` set (family_tnum_glyphs [example_tnum_regular])) \<le> 1"
    by simp
  with tnum_horizontal_metrics_outcome [of "[example_tnum_regular]"]
  have b: "com_google_fonts_check_family_tnum_horizontal_metrics [example_tnum_regular] =
        ([(PASS, Plain [Lit ''OK''])], None)" by blast
  from a b show ?thesis by blast
qed

subsection \<open>The false-positive cutoff of the outline checks\<close>

lemma glyph_loop_cutoff:
  assumes "collect scan gs = Inr new"
    and "length ws \<le> FALSE_POSITIVE_CUTOFF"
    and "length (ws @ new) > FALSE_POSITIVE_CUTOFF"
  shows "glyph_loop scan (gs @ rest) ws = CutOff"
  using assms
proof (induction gs arbitrary: ws new)
  case Nil
  then show ?case by simp
next
  case (Cons g gs)
  from Cons.prems(1) obtain w1 w2 where g: "scan g = Inr w1" and gs: "collect scan gs = Inr w2"
    and new: "new = w1 @ w2"
    by (auto split: sum.splits)
  show ?case
  proof (cases "length (ws @ w1) > FALSE_POSITIVE_CUTOFF")
    case True
    with g show ?thesis by simp
  next
    case False
    then have le: "length (ws @ w1) \<le> FALSE_POSITIVE_CUTOFF" by simp
    from Cons.prems(3) new have "length ((ws @ w1) @ w2) > FALSE_POSITIVE_CUTOFF" by simp
    from Cons.IH [OF gs le this] g False show ?thesis by simp
  qed
qed

lemma glyph_loop_cutoff0:
  assumes "collect scan gs = Inr ws" and "FALSE_POSITIVE_CUTOFF < length ws"
  shows "glyph_loop scan (gs @ rest) [] = CutOff"
  using glyph_loop_cutoff [OF assms(1), of "[]" rest] assms(2) by simp

lemma collect_replicate:
  "body x = Inr ws \<Longrightarrow> collect body (replicate n x) = Inr (concat (replicate n ws))"
  by (induction n) simp_all

lemma length_concat_replicate: "length (concat (replicate n ws)) = n * length ws"
  by (induction n) simp_all

lemma short_segments_cutoff:
  assumes "collect short_segments_glyph processed = Inr ws" and "FALSE_POSITIVE_CUTOFF < length ws"
  shows "check_outline_short_segments ttFont (processed @ rest) config =
           ([(PASS, Plain
                [Lit ''So many short segments were found that this was probably by design.''])],
            None)"
  using glyph_loop_cutoff0 [OF assms] by (simp add: check_outline_short_segments_def)

lemma colinear_cutoff:
  assumes "collect (colinear_glyph angle_of) processed = Inr ws" and "FALSE_POSITIVE_CUTOFF < length ws"
  shows "check_outline_colinear_vectors angle_of ttFont (processed @ rest) config =
           ([(PASS, Plain
                [Lit ''So many colinear vectors were found that this was probably by design.''])],
            None)"
  using glyph_loop_cutoff0 [OF assms] by (simp add: check_outline_colinear_vectors_def)

lemma alignment_miss_cutoff:
  assumes "tbl_OS2 ttFont = Some os2"
    and "collect (alignment_glyph
           (if version os2 \<ge> 2
            then [(''baseline'', 0), (''ascender'', sTypoAscender os2),
                  (''descender'', sTypoDescender os2), (''x-height'', sxHeight os2),
                  (''cap-height'', sCapHeight os2)]
            else [(''baseline'', 0), (''ascender'', sTypoAscender os2),
                  (''descender'', sTypoDescender os2)])) processed = Inr ws"
    and "FALSE_POSITIVE_CUTOFF < length ws"
  shows "check_outline_alignment_miss ttFont (processed @ rest) config =
           ((if version os2 \<ge> 2 then []
             else [(WARN, Message ''skip-cap-x-height-alignment''
                      [Lit ''x-height and cap-height checks are skipped because OS/2 table version is only '',
                       Num (version os2),
                       Lit '' and version >= 2 is required for those checks.''])])
            @ [(PASS, Plain
                 [Lit ''So many Y-coordinates of points were close to boundaries that this was probably by design.''])],
            None)"
proof (cases "version os2 \<ge> 2")
  case True
  with assms(2) have c: "collect (alignment_glyph
            [(''baseline'', 0), (''ascender'', sTypoAscender os2),
                  (''descender'', sTypoDescender os2), (''x-height'', sxHeight os2),
                  (''cap-height'', sCapHeight os2)]) processed = Inr ws" by simp
  from glyph_loop_cutoff0 [OF c assms(3)] assms(1) True show ?thesis
    by (simp add: check_outline_alignment_miss_def)
next
  case False
  with assms(2) have c: "collect (alignment_glyph
            [(''baseline'', 0), (''ascender'', sTypoAscender os2),
                  (''descender'', sTypoDescender os2)]) processed = Inr ws" by simp
  from glyph_loop_cutoff0 [OF c assms(3)] assms(1) False show ?thesis
    by (simp add: check_outline_alignment_miss_def)
qed


text \<open>
  C4, as the code has it. Let \<open>processed\<close> be the glyphs scanned up to and including one
  after which more than \<open>FALSE_POSITIVE_CUTOFF\<close> warnings have accumulated, and \<open>rest\<close>
  any further glyphs. \<open>check_outline_short_segments\<close> and
  \<open>check_outline_colinear_vectors\<close> then yield exactly one outcome, their summary
  \<open>PASS\<close>, whatever \<open>rest\<close> is: no glyph of \<open>rest\<close> is processed and no \<open>WARN\<close> is
  yielded. \<open>check_outline_alignment_miss\<close> ends with its summary \<open>PASS\<close> in the same way
  and yields no \<open>found-misalignments\<close> \<open>WARN\<close>; before it stands the
  \<open>skip-cap-x-height-alignment\<close> \<open>WARN\<close>, yielded before the scan, when the OS/2 table
  version is below 2.
\<close>

theorem cutoff_summary_pass:
  "(collect short_segments_glyph processed = Inr ws \<and> FALSE_POSITIVE_CUTOFF < length ws \<longrightarrow>
      check_outline_short_segments ttFont (processed @ rest) config =
        ([(PASS, Plain
             [Lit ''So many short segments were found that this was probably by design.''])],
         None))
   \<and> (collect (colinear_glyph angle_of) processed = Inr ws' \<and> FALSE_POSITIVE_CUTOFF < length ws' \<longrightarrow>
      check_outline_colinear_vectors angle_of ttFont (processed @ rest) config =
        ([(PASS, Plain
             [Lit ''So many colinear vectors were found that this was probably by design.''])],
         None))
   \<and> (tbl_OS2 ttFont = Some os2
       \<and> collect (alignment_glyph
           (if version os2 \<ge> 2
            then [(''baseline'', 0), (''ascender'', sTypoAscender os2),
                  (''descender'', sTypoDescender os2), (''x-height'', sxHeight os2),
                  (''cap-height'', sCapHeight os2)]
            else [(''baseline'', 0), (''ascender'', sTypoAscender os2),
                  (''descender'', sTypoDescender os2)])) processed = Inr ws''
       \<and> FALSE_POSITIVE_CUTOFF < length ws'' \<longrightarrow>
      check_outline_alignment_miss ttFont (processed @ rest) config =
        ((if version os2 \<ge> 2 then []
          else [(WARN, Message ''skip-cap-x-height-alignment''
                   [Lit ''x-height and cap-height checks are skipped because OS/2 table version is only '',
                    Num (version os2),
                    Lit '' and version >= 2 is required for those checks.''])])
         @ [(PASS, Plain
              [Lit ''So many Y-coordinates of points were close to boundaries that this was probably by design.''])],
         None))"
  using short_segments_cutoff colinear_cutoff alignment_miss_cutoff by blast

lemma short_segments_loop_replicate:
  "isclose (seg_length seg) 0 \<Longrightarrow>
     short_segments_loop dn l b (replicate n seg) =
       replicate n [Str dn, Lit '' contains a short segment '', Str (seg_repr seg)]"
  by (induction n arbitrary: b) simp_all

lemma prev_this_replicate: "prev_this (replicate n s) = replicate n (s, s)"
proof (cases n)
  case 0
  then show ?thesis by (simp add: prev_this_def)
next
  case (Suc m)
  have "butlast (replicate (Suc m) s) = replicate m s"
    by (metis butlast_snoc replicate_append_same replicate_Suc)
  moreover have "zip (s # replicate m s) (replicate (Suc m) s) = replicate (Suc m) (s, s)"
    by (induction m) simp_all
  ultimately show ?thesis using Suc by (simp add: prev_this_def)
qed

lemma example_short_scan:
  "collect short_segments_glyph example_busy_outlines =
     Inr (replicate 101 [Str ''a (U+0061)'', Lit '' contains a short segment '',
                         Str ''L<<0.0,1.0>--<0.0,1.0>>''])"
proof -
  have c: "isclose (seg_length example_null_segment) 0"
    by (simp add: isclose_def example_null_segment_def)
  have r: "seg_repr example_null_segment = ''L<<0.0,1.0>--<0.0,1.0>>''"
    by (simp add: example_null_segment_def)
  show ?thesis
    by (simp add: example_busy_outlines_def short_segments_glyph_def short_segments_path_def
          short_segments_loop_replicate [OF c] r)
qed

lemma concat_replicate_single: "concat (replicate n [w]) = replicate n w"
  by (induction n) simp_all

lemma example_colinear_scan:
  "collect (colinear_glyph (\<lambda>v. 0)) example_busy_outlines =
     Inr (replicate 101
            ''a (U+0061): L<<0.0,1.0>--<0.0,1.0>> -> L<<0.0,1.0>--<0.0,1.0>>'')"
proof -
  have s: "seg_len example_null_segment = 2"
    "seg_repr example_null_segment = ''L<<0.0,1.0>--<0.0,1.0>>''"
    by (simp_all add: example_null_segment_def)
  show ?thesis
    unfolding example_busy_outlines_def colinear_glyph_def colinear_path_def
    by (simp add: prev_this_replicate s COLINEAR_EPSILON_def concat_replicate_single)
qed

lemma example_alignment_scan:
  assumes "alignment_node alignments ''a'' ''a (U+0061)'' example_near_baseline_node = Inr [w]"
  shows "collect (alignment_glyph alignments) example_busy_outlines = Inr (replicate 101 w)"
proof -
  have "collect (alignment_node alignments ''a'' ''a (U+0061)'') (replicate 101 example_near_baseline_node)
          = Inr (concat (replicate 101 [w]))"
    using assms by (rule collect_replicate)
  then show ?thesis
    by (simp add: example_busy_outlines_def alignment_glyph_def concat_replicate_single)
qed

lemma example_alignment_node_v1:
  "alignment_node [(''baseline'', 0), (''ascender'', 800), (''descender'', - 200)]
       ''a'' ''a (U+0061)'' example_near_baseline_node =
     Inr [[Str ''a (U+0061)'', Lit '': X='', Val 0, Lit '',Y='', Val 1,
           Lit '' (should be at '', Str ''baseline'', Lit '' '', Num 0, Lit ''?)'']]"
  by (simp add: alignment_node_def alignment_line_def example_near_baseline_node_def
        close_but_not_on_def ALIGNMENT_MISS_EPSILON_def)

lemma example_alignment_node_v4:
  "alignment_node [(''baseline'', 0), (''ascender'', 800), (''descender'', - 200),
                   (''x-height'', 500), (''cap-height'', 700)]
       ''a'' ''a (U+0061)'' example_near_baseline_node =
     Inr [[Str ''a (U+0061)'', Lit '': X='', Val 0, Lit '',Y='', Val 1,
           Lit '' (should be at '', Str ''baseline'', Lit '' '', Num 0, Lit ''?)'']]"
  by (simp add: alignment_node_def alignment_line_def example_near_baseline_node_def
        close_but_not_on_def ALIGNMENT_MISS_EPSILON_def is_caps_name_def isupper_def)

theorem cutoff_summary_pass_witness:
  "check_outline_short_segments example_font example_busy_outlines [] =
     ([(PASS, Plain
          [Lit ''So many short segments were found that this was probably by design.''])],
      None)
   \<and> check_outline_colinear_vectors (\<lambda>v. 0) example_font example_busy_outlines [] =
     ([(PASS, Plain
          [Lit ''So many colinear vectors were found that this was probably by design.''])],
      None)
   \<and> check_outline_alignment_miss example_font example_busy_outlines [] =
     ([(PASS, Plain
          [Lit ''So many Y-coordinates of points were close to boundaries that this was probably by design.''])],
      None)"
proof -
  have os2: "tbl_OS2 example_font = Some example_os2" by (simp add: example_font_def)
  have al: "collect (alignment_glyph
           (if version example_os2 \<ge> 2
            then [(''baseline'', 0), (''ascender'', sTypoAscender example_os2),
                  (''descender'', sTypoDescender example_os2), (''x-height'', sxHeight example_os2),
                  (''cap-height'', sCapHeight example_os2)]
            else [(''baseline'', 0), (''ascender'', sTypoAscender example_os2),
                  (''descender'', sTypoDescender example_os2)])) example_busy_outlines =
        Inr (replicate 101 [Str ''a (U+0061)'', Lit '': X='', Val 0, Lit '',Y='', Val 1,
           Lit '' (should be at '', Str ''baseline'', Lit '' '', Num 0, Lit ''?)''])"
    using example_alignment_scan [OF example_alignment_node_v4] by (simp add: example_os2_def)
  have v: "version example_os2 \<ge> 2" by (simp add: example_os2_def)
  show ?thesis
    using cutoff_summary_pass
            [of example_busy_outlines
                "replicate 101 [Str ''a (U+0061)'', Lit '' contains a short segment '',
                         Str ''L<<0.0,1.0>--<0.0,1.0>>'']"
                example_font "[]" "[]" "\<lambda>v. 0"
                "replicate 101 ''a (U+0061): L<<0.0,1.0>--<0.0,1.0>> -> L<<0.0,1.0>--<0.0,1.0>>''"
                example_os2
                "replicate 101 [Str ''a (U+0061)'', Lit '': X='', Val 0, Lit '',Y='', Val 1,
           Lit '' (should be at '', Str ''baseline'', Lit '' '', Num 0, Lit ''?)'']"]
          example_short_scan example_colinear_scan al os2 v
    by (simp add: FALSE_POSITIVE_CUTOFF_def)
qed

text \<open>
  The claim as it is written, exactly one \<open>PASS\<close> and no \<open>WARN\<close>, fails for
  \<open>check_outline_alignment_miss\<close> on a font whose OS/2 table has version 1: one glyph
  with 101 on-curve points at \<open>y = 1\<close> makes it yield a \<open>WARN\<close> and then the \<open>PASS\<close>.
\<close>

theorem alignment_miss_cutoff_counterexample:
  "check_outline_alignment_miss
     (example_font\<lparr>tbl_OS2 := Some (example_os2\<lparr>version := 1\<rparr>)\<rparr>) example_busy_outlines [] =
     ([(WARN, Message ''skip-cap-x-height-alignment''
          [Lit ''x-height and cap-height checks are skipped because OS/2 table version is only '',
           Num 1, Lit '' and version >= 2 is required for those checks.'']),
       (PASS, Plain
          [Lit ''So many Y-coordinates of points were close to boundaries that this was probably by design.''])],
      None)"
proof -
  let ?os2 = "example_os2\<lparr>version := 1\<rparr>"
  have os2: "tbl_OS2 (example_font\<lparr>tbl_OS2 := Some ?os2\<rparr>) = Some ?os2" by simp
  have al: "collect (alignment_glyph
           (if version ?os2 \<ge> 2
            then [(''baseline'', 0), (''ascender'', sTypoAscender ?os2),
                  (''descender'', sTypoDescender ?os2), (''x-height'', sxHeight ?os2),
                  (''cap-height'', sCapHeight ?os2)]
            else [(''baseline'', 0), (''ascender'', sTypoAscender ?os2),
                  (''descender'', sTypoDescender ?os2)])) example_busy_outlines =
        Inr (replicate 101 [Str ''a (U+0061)'', Lit '': X='', Val 0, Lit '',Y='', Val 1,
           Lit '' (should be at '', Str ''baseline'', Lit '' '', Num 0, Lit ''?)''])"
    using example_alignment_scan [OF example_alignment_node_v1] by (simp add: example_os2_def)
  have len: "FALSE_POSITIVE_CUTOFF < length (replicate 101 [Str ''a (U+0061)'', Lit '': X='', Val 0, Lit '',Y='', Val 1,
           Lit '' (should be at '', Str ''baseline'', Lit '' '', Num 0, Lit ''?)''])"
    by (simp add: FALSE_POSITIVE_CUTOFF_def)
  from alignment_miss_cutoff [OF os2 al len, of "[]" "[]"] show ?thesis by simp
qed

subsection \<open>The subroutine call tree\<close>














subsection \<open>The shared font object is left unchanged\<close>












lemma example_typoascender_run:
  "check_typoascender_exceeds_Agrave example_heap 0 =
     (([(PASS, Plain [Lit ''OS/2.sTypoAscender value is greater than the yMax of /Agrave.''])], None),
      \<lparr>objs = (\<lambda>a. example_font)(1 := example_font\<lparr>drawn := [''Agrave'']\<rparr>), next_addr = 2\<rparr>)"
  by (simp add: check_typoascender_exceeds_Agrave_def deepcopy_def draw_def example_heap_def
        example_font_def example_glyph_def example_os2_def SOME_UPPERCASE_GLYPHS_def)



text \<open>
  The condition \<open>outlines_dict\<close> takes no copy. What it does to a font object is what
  \<open>BezierPath.fromFonttoolsGlyph\<close> does to it, called on the shared object once for each
  glyph of the glyph order.
\<close>

lemma outlines_loop_frame:
  assumes "\<And>h g. objs (snd (lib h a g)) b = objs h b"
  shows "objs (snd (outlines_loop lib reversed h a gs acc)) b = objs h b"
proof (induction gs arbitrary: h acc)
  case Nil
  show ?case by simp
next
  case (Cons g gs)
  obtain r h' where l: "lib h a g = (r, h')" by (cases "lib h a g")
  with assms [of h g] have h': "objs h' b = objs h b" by simp
  show ?case
  proof (cases r)
    case (Inl e)
    with l h' show ?thesis by simp
  next
    case (Inr paths)
    with l h' Cons.IH [of h'] show ?thesis by simp
  qed
qed

lemma outlines_dict_frame:
  assumes "\<And>h g. objs (snd (lib h (font_ttFont font) g)) b = objs h b"
  shows "objs (snd (outlines_dict glyph_order lib h font)) b = objs h b"
  using outlines_loop_frame [of lib "font_ttFont font" b, OF assms]
  by (simp add: outlines_dict_def Let_def split: option.splits)

lemma example_fromFonttoolsGlyph_drawn:
  "map_of (getGlyphSet (objs h a)) g = Some gl \<Longrightarrow>
     objs (snd (example_fromFonttoolsGlyph h a g)) a = (objs h a)\<lparr>drawn := drawn (objs h a) @ [g]\<rparr>"
  by (cases "pen_bounds gl") (auto simp: example_fromFonttoolsGlyph_def draw_def)

lemma example_format_04X:
  "format_04X 65 = ''0041''" "format_04X 66 = ''0042''"
  by (simp_all add: format_04X_def hex_digits.simps hex_digit_def numeral_2_eq_2)

lemma example_display_names:
  "display_name_of (reversed_cmap [(65, ''A''), (66, ''B'')]) g =
     (if g = ''A'' then ''A (U+0041)'' else if g = ''B'' then ''B (U+0042)'' else g)"
  by (simp add: display_name_of_def reversed_cmap_def example_format_04X)

lemma example_outlines_dict_run:
  "drawn (objs (snd (outlines_dict (\<lambda>ttFont. map fst (getGlyphSet ttFont))
       example_fromFonttoolsGlyph example_heap example_entity)) 0) =
     SOME_UPPERCASE_GLYPHS @ [''Agrave'']"
  by (simp add: outlines_dict_def example_entity_def example_heap_def example_font_def
        example_fromFonttoolsGlyph_def draw_def example_glyph_def SOME_UPPERCASE_GLYPHS_def)

lemma example_outlines_dict_keys:
  "map_sum id (map fst) (fst (outlines_dict (\<lambda>ttFont. map fst (getGlyphSet ttFont))
       example_fromFonttoolsGlyph example_heap example_entity)) =
     Inr [(''A'', ''A (U+0041)''), (''B'', ''B (U+0042)''), (''C'', ''C''), (''D'', ''D''),
          (''E'', ''E''), (''H'', ''H''), (''I'', ''I''), (''M'', ''M''), (''O'', ''O''),
          (''S'', ''S''), (''T'', ''T''), (''X'', ''X''), (''Agrave'', ''Agrave'')]"
  by (simp add: outlines_dict_def example_entity_def example_heap_def example_font_def
        example_fromFonttoolsGlyph_def draw_def example_glyph_def SOME_UPPERCASE_GLYPHS_def
        example_display_names)


text \<open>
  C5. No condition or check body may change the font object that the entity shares
  with all of them. The two checks of metrics.py that draw glyphs and the condition
  \<open>cff_analysis\<close> keep to this by working on a copy, and say so in their comments. The
  condition \<open>outlines_dict\<close> does not: on the example entity, with a
  \<open>fromFonttoolsGlyph\<close> that draws the glyph it is asked for, every glyph of the glyph
  order has been drawn on the shared object when the condition returns, and the object
  is no longer what it was.
\<close>

theorem outlines_dict_draws_on_shared_font:
  "objs example_heap (font_ttFont example_entity) = example_font
   \<and> objs (snd (outlines_dict (\<lambda>ttFont. map fst (getGlyphSet ttFont))
               example_fromFonttoolsGlyph example_heap example_entity))
         (font_ttFont example_entity)
       = example_font\<lparr>drawn := SOME_UPPERCASE_GLYPHS @ [''Agrave'']\<rparr>
   \<and> objs (snd (outlines_dict (\<lambda>ttFont. map fst (getGlyphSet ttFont))
               example_fromFonttoolsGlyph example_heap example_entity))
         (font_ttFont example_entity)
       \<noteq> objs example_heap (font_ttFont example_entity)"
proof -
  let ?h = "snd (outlines_dict (\<lambda>ttFont. map fst (getGlyphSet ttFont))
               example_fromFonttoolsGlyph example_heap example_entity)"
  have a: "font_ttFont example_entity = 0" by (simp add: example_entity_def)
  have b: "objs example_heap 0 = example_font" by (simp add: example_heap_def)
  have c: "objs ?h 0 = example_font\<lparr>drawn := SOME_UPPERCASE_GLYPHS @ [''Agrave'']\<rparr>"
    by (simp add: outlines_dict_def example_entity_def example_heap_def example_font_def
        example_fromFonttoolsGlyph_def draw_def example_glyph_def SOME_UPPERCASE_GLYPHS_def)
  have d: "example_font\<lparr>drawn := SOME_UPPERCASE_GLYPHS @ [''Agrave'']\<rparr> \<noteq> example_font"
    by (simp add: example_font_def SOME_UPPERCASE_GLYPHS_def)
  from a b c d show ?thesis by simp
qed

subsection \<open>Which check bodies always yield an outcome\<close>

lemma win_ascent_emits:
  "outcomes_of (check_family_win_ascent_and_descent ttFont vm) \<noteq> []"
  by (auto simp: check_family_win_ascent_and_descent_def Let_def split: option.splits)

lemma os2_metrics_match_hhea_emits:
  "error_of (check_os2_metrics_match_hhea ttFont) = None \<Longrightarrow>
     outcomes_of (check_os2_metrics_match_hhea ttFont) \<noteq> []"
  by (auto simp: check_os2_metrics_match_hhea_def Let_def split: option.splits if_splits)

lemma vertical_metrics_collect_flag:
  "(m \<longrightarrow> out \<noteq> []) \<Longrightarrow>
     fst (snd (fst (vertical_metrics_collect fs out m vm))) \<longrightarrow>
     fst (fst (vertical_metrics_collect fs out m vm)) \<noteq> []"
  by (induction fs arbitrary: out m vm) (auto simp: Let_def split: option.splits)

lemma vertical_metrics_emits:
  "error_of (check_family_vertical_metrics ttFonts) = None \<Longrightarrow>
     outcomes_of (check_family_vertical_metrics ttFonts) \<noteq> []"
proof -
  assume a: "error_of (check_family_vertical_metrics ttFonts) = None"
  obtain out m vm e where r: "vertical_metrics_collect ttFonts [] False vm_initial = ((out, m, vm), e)"
    by (metis prod.exhaust)
  from vertical_metrics_collect_flag [of False "[]" ttFonts vm_initial] r
  have "m \<longrightarrow> out \<noteq> []" by simp
  with a r show ?thesis
    by (auto simp: check_family_vertical_metrics_def Let_def split: option.splits if_splits)
qed

lemma linegaps_emits:
  "error_of (check_linegaps ttFont) = None \<Longrightarrow> outcomes_of (check_linegaps ttFont) \<noteq> []"
  by (auto simp: check_linegaps_def Let_def split: option.splits if_splits)

lemma typoascender_emits:
  "error_of (fst (check_typoascender_exceeds_Agrave h a)) = None \<Longrightarrow>
     outcomes_of (fst (check_typoascender_exceeds_Agrave h a)) \<noteq> []"
  by (auto simp: check_typoascender_exceeds_Agrave_def Let_def
        split: option.splits sum.splits prod.splits if_splits)

lemma caps_emits:
  "error_of (fst (check_caps_vertically_centered h a)) = None \<Longrightarrow>
     outcomes_of (fst (check_caps_vertically_centered h a)) \<noteq> []"
  using caps_shape [of h a] by auto

lemma alignment_miss_emits:
  "error_of (check_outline_alignment_miss ttFont od config) = None \<Longrightarrow>
     outcomes_of (check_outline_alignment_miss ttFont od config) \<noteq> []"
  by (auto simp: check_outline_alignment_miss_def Let_def
        split: option.splits glyph_loop_end.splits if_splits)

lemma short_segments_emits:
  "error_of (check_outline_short_segments ttFont od config) = None \<Longrightarrow>
     outcomes_of (check_outline_short_segments ttFont od config) \<noteq> []"
  by (auto simp: check_outline_short_segments_def split: glyph_loop_end.splits if_splits)

lemma colinear_emits:
  "error_of (check_outline_colinear_vectors angle_of ttFont od config) = None \<Longrightarrow>
     outcomes_of (check_outline_colinear_vectors angle_of ttFont od config) \<noteq> []"
  by (auto simp: check_outline_colinear_vectors_def split: glyph_loop_end.splits if_splits)

lemma jaggy_emits:
  "error_of (check_outline_jaggy_segments str_float ttFont od config) = None \<Longrightarrow>
     outcomes_of (check_outline_jaggy_segments str_float ttFont od config) \<noteq> []"
  by (auto simp: check_outline_jaggy_segments_def Let_def split: option.splits if_splits)

lemma semi_vertical_emits:
  "outcomes_of (check_outline_semi_vertical angle_of ttFont od config) \<noteq> []"
  by (auto simp: check_outline_semi_vertical_def Let_def)

lemma overlapping_emits:
  "outcomes_of (check_overlapping_path_segments ttFont od config) \<noteq> []"
  by (auto simp: check_overlapping_path_segments_def Let_def)

lemma equal_codepoint_coverage_emits:
  "error_of (com_google_fonts_check_family_equal_codepoint_coverage cs so ttFonts config) = None \<Longrightarrow>
     outcomes_of (com_google_fonts_check_family_equal_codepoint_coverage cs so ttFonts config) \<noteq> []"
  by (auto simp: com_google_fonts_check_family_equal_codepoint_coverage_def Let_def
        split: sum.splits list.splits if_splits)

lemma italics_emits:
  "outcomes_of (com_google_fonts_check_family_italics_have_roman_counterparts fonts config) \<noteq> []"
  by (auto simp: com_google_fonts_check_family_italics_have_roman_counterparts_def Let_def)

lemma tnum_emits:
  "error_of (com_google_fonts_check_family_tnum_horizontal_metrics ttFonts) = None \<Longrightarrow>
     outcomes_of (com_google_fonts_check_family_tnum_horizontal_metrics ttFonts) \<noteq> []"
  by (auto simp: com_google_fonts_check_family_tnum_horizontal_metrics_def Let_def
        split: sum.splits prod.splits if_splits)

lemma call_depth_graded:
  "graded (check_cff_call_depth analysis) =
     map (\<lambda>gn. (FAIL, Some ''max-depth'')) (glyphs_exceed_max analysis)
     @ map (\<lambda>gn. (FAIL, Some ''recursion-error'')) (glyphs_recursion_errors analysis)"
  "graded (check_cff2_call_depth analysis) =
     map (\<lambda>gn. (FAIL, Some ''max-depth'')) (glyphs_exceed_max analysis)
     @ map (\<lambda>gn. (FAIL, Some ''recursion-error'')) (glyphs_recursion_errors analysis)"
  "error_of (check_cff_call_depth analysis) = None"
  "error_of (check_cff2_call_depth analysis) = None"
  by (simp_all add: graded_def check_cff_call_depth_def check_cff2_call_depth_def
        call_depth_outcomes_def)

lemma deprecated_operators_graded:
  "graded (check_cff_deprecated_operators analysis) =
     map (\<lambda>gn. (WARN, Some ''deprecated-operator-dotsection'')) (glyphs_dotsection analysis)
     @ map (\<lambda>gn. (FAIL, Some ''deprecated-operation-endchar-seac''))
         (glyphs_endchar_seac analysis)"
  "error_of (check_cff_deprecated_operators analysis) = None"
  by (simp_all add: graded_def check_cff_deprecated_operators_def)

lemma ascii_strings_graded:
  "string_not_ascii analysis = Some [] \<Longrightarrow> check_cff_ascii_strings recode analysis = ([], None)"
  "string_not_ascii analysis = None \<Longrightarrow>
     graded (check_cff_ascii_strings recode analysis) = [(FAIL, Some ''cff-unable-to-decode'')]
     \<and> error_of (check_cff_ascii_strings recode analysis) = None"
  "string_not_ascii analysis = Some (entry # entries) \<Longrightarrow>
     error_of (check_cff_ascii_strings recode analysis) = None \<Longrightarrow>
     graded (check_cff_ascii_strings recode analysis) =
       [(FAIL, Some ''cff-string-not-in-ascii-range'')]"
  by (auto simp: graded_def check_cff_ascii_strings_def split: option.splits sum.splits)

lemma direction_graded:
  "concat (map direction_glyph od) = [] \<Longrightarrow> check_outline_direction ttFont od config = ([], None)"
  "concat (map direction_glyph od) \<noteq> [] \<Longrightarrow>
     graded (check_outline_direction ttFont od config) = [(WARN, Some ''ccw-outer-contour'')]
     \<and> error_of (check_outline_direction ttFont od config) = None"
  by (simp_all add: graded_def check_outline_direction_def Let_def)

text \<open>
  C1, as the code has it. Fifteen of the twenty check bodies of the sources yield at
  least one outcome on every run that ends without an exception. The other five yield
  only when they find a problem, and nothing otherwise. \<open>check_cff_call_depth\<close> and
  \<open>check_cff2_call_depth\<close> yield one \<open>FAIL\<close> \<open>max-depth\<close> per glyph of
  \<open>glyphs_exceed_max\<close>, then one \<open>FAIL\<close> \<open>recursion-error\<close> per glyph of
  \<open>glyphs_recursion_errors\<close>. \<open>check_cff_deprecated_operators\<close> yields one \<open>WARN\<close> per
  glyph of \<open>glyphs_dotsection\<close>, then one \<open>FAIL\<close> per glyph of \<open>glyphs_endchar_seac\<close>.
  \<open>check_cff_ascii_strings\<close> yields nothing for an empty list of strings, one \<open>FAIL\<close>
  \<open>cff-unable-to-decode\<close> when the table could not be decoded, and one \<open>FAIL\<close>
  \<open>cff-string-not-in-ascii-range\<close> for a list with an entry. \<open>check_outline_direction\<close>
  yields nothing when no contour gave a warning and one \<open>WARN\<close> \<open>ccw-outer-contour\<close>
  otherwise.
\<close>

theorem check_bodies_emit:
  "outcomes_of (check_family_win_ascent_and_descent ttFont vm) \<noteq> []
   \<and> (error_of (check_os2_metrics_match_hhea ttFont) = None \<longrightarrow>
        outcomes_of (check_os2_metrics_match_hhea ttFont) \<noteq> [])
   \<and> (error_of (check_family_vertical_metrics ttFonts) = None \<longrightarrow>
        outcomes_of (check_family_vertical_metrics ttFonts) \<noteq> [])
   \<and> (error_of (check_linegaps ttFont) = None \<longrightarrow> outcomes_of (check_linegaps ttFont) \<noteq> [])
   \<and> (error_of (fst (check_typoascender_exceeds_Agrave h a)) = None \<longrightarrow>
        outcomes_of (fst (check_typoascender_exceeds_Agrave h a)) \<noteq> [])
   \<and> (error_of (fst (check_caps_vertically_centered h a)) = None \<longrightarrow>
        outcomes_of (fst (check_caps_vertically_centered h a)) \<noteq> [])
   \<and> (error_of (check_outline_alignment_miss ttFont od config) = None \<longrightarrow>
        outcomes_of (check_outline_alignment_miss ttFont od config) \<noteq> [])
   \<and> (error_of (check_outline_short_segments ttFont od config) = None \<longrightarrow>
        outcomes_of (check_outline_short_segments ttFont od config) \<noteq> [])
   \<and> (error_of (check_outline_colinear_vectors angle_of ttFont od config) = None \<longrightarrow>
        outcomes_of (check_outline_colinear_vectors angle_of ttFont od config) \<noteq> [])
   \<and> (error_of (check_outline_jaggy_segments str_float ttFont od config) = None \<longrightarrow>
        outcomes_of (check_outline_jaggy_segments str_float ttFont od config) \<noteq> [])
   \<and> outcomes_of (check_outline_semi_vertical angle_of ttFont od config) \<noteq> []
   \<and> outcomes_of (check_overlapping_path_segments ttFont od config) \<noteq> []
   \<and> (error_of (com_google_fonts_check_family_equal_codepoint_coverage
                   canonical_stylename residue_order ttFonts config) = None \<longrightarrow>
        outcomes_of (com_google_fonts_check_family_equal_codepoint_coverage
                       canonical_stylename residue_order ttFonts config) \<noteq> [])
   \<and> outcomes_of (com_google_fonts_check_family_italics_have_roman_counterparts fonts config) \<noteq> []
   \<and> (error_of (com_google_fonts_check_family_tnum_horizontal_metrics ttFonts) = None \<longrightarrow>
        outcomes_of (com_google_fonts_check_family_tnum_horizontal_metrics ttFonts) \<noteq> [])
   \<and> graded (check_cff_call_depth analysis) =
        map (\<lambda>gn. (FAIL, Some ''max-depth'')) (glyphs_exceed_max analysis)
        @ map (\<lambda>gn. (FAIL, Some ''recursion-error'')) (glyphs_recursion_errors analysis)
   \<and> error_of (check_cff_call_depth analysis) = None
   \<and> graded (check_cff2_call_depth analysis) =
        map (\<lambda>gn. (FAIL, Some ''max-depth'')) (glyphs_exceed_max analysis)
        @ map (\<lambda>gn. (FAIL, Some ''recursion-error'')) (glyphs_recursion_errors analysis)
   \<and> error_of (check_cff2_call_depth analysis) = None
   \<and> graded (check_cff_deprecated_operators analysis) =
        map (\<lambda>gn. (WARN, Some ''deprecated-operator-dotsection'')) (glyphs_dotsection analysis)
        @ map (\<lambda>gn. (FAIL, Some ''deprecated-operation-endchar-seac''))
            (glyphs_endchar_seac analysis)
   \<and> error_of (check_cff_deprecated_operators analysis) = None
   \<and> (string_not_ascii analysis = Some [] \<longrightarrow>
        check_cff_ascii_strings recode analysis = ([], None))
   \<and> (string_not_ascii analysis = None \<longrightarrow>
        graded (check_cff_ascii_strings recode analysis) = [(FAIL, Some ''cff-unable-to-decode'')]
        \<and> error_of (check_cff_ascii_strings recode analysis) = None)
   \<and> (string_not_ascii analysis \<noteq> None \<and> string_not_ascii analysis \<noteq> Some []
        \<and> error_of (check_cff_ascii_strings recode analysis) = None \<longrightarrow>
        graded (check_cff_ascii_strings recode analysis) =
          [(FAIL, Some ''cff-string-not-in-ascii-range'')])
   \<and> (concat (map direction_glyph od) = [] \<longrightarrow>
        check_outline_direction ttFont od config = ([], None))
   \<and> (concat (map direction_glyph od) \<noteq> [] \<longrightarrow>
        graded (check_outline_direction ttFont od config) = [(WARN, Some ''ccw-outer-contour'')]
        \<and> error_of (check_outline_direction ttFont od config) = None)"
proof -
  have ascii: "graded (check_cff_ascii_strings recode analysis) =
          [(FAIL, Some ''cff-string-not-in-ascii-range'')]"
    if "string_not_ascii analysis \<noteq> None \<and> string_not_ascii analysis \<noteq> Some []
        \<and> error_of (check_cff_ascii_strings recode analysis) = None"
  proof -
    from that obtain entry entries where "string_not_ascii analysis = Some (entry # entries)"
      by (cases "string_not_ascii analysis"; cases "the (string_not_ascii analysis)") auto
    with that show ?thesis using ascii_strings_graded(3) by blast
  qed
  show ?thesis
  proof (intro conjI impI)
    show "outcomes_of (check_family_win_ascent_and_descent ttFont vm) \<noteq> []"
      by (rule win_ascent_emits)
    show "outcomes_of (check_outline_semi_vertical angle_of ttFont od config) \<noteq> []"
      by (rule semi_vertical_emits)
    show "outcomes_of (check_overlapping_path_segments ttFont od config) \<noteq> []"
      by (rule overlapping_emits)
    show "outcomes_of (com_google_fonts_check_family_italics_have_roman_counterparts fonts config) \<noteq> []"
      by (rule italics_emits)
    show "graded (check_cff_call_depth analysis) =
        map (\<lambda>gn. (FAIL, Some ''max-depth'')) (glyphs_exceed_max analysis)
        @ map (\<lambda>gn. (FAIL, Some ''recursion-error'')) (glyphs_recursion_errors analysis)"
      by (rule call_depth_graded)
    show "graded (check_cff2_call_depth analysis) =
        map (\<lambda>gn. (FAIL, Some ''max-depth'')) (glyphs_exceed_max analysis)
        @ map (\<lambda>gn. (FAIL, Some ''recursion-error'')) (glyphs_recursion_errors analysis)"
      by (rule call_depth_graded)
    show "error_of (check_cff_call_depth analysis) = None" by (rule call_depth_graded)
    show "error_of (check_cff2_call_depth analysis) = None" by (rule call_depth_graded)
    show "graded (check_cff_deprecated_operators analysis) =
        map (\<lambda>gn. (WARN, Some ''deprecated-operator-dotsection'')) (glyphs_dotsection analysis)
        @ map (\<lambda>gn. (FAIL, Some ''deprecated-operation-endchar-seac''))
            (glyphs_endchar_seac analysis)"
      by (rule deprecated_operators_graded)
    show "error_of (check_cff_deprecated_operators analysis) = None"
      by (rule deprecated_operators_graded)
  next
    assume "string_not_ascii analysis = None"
    then show "graded (check_cff_ascii_strings recode analysis) = [(FAIL, Some ''cff-unable-to-decode'')]"
      and "error_of (check_cff_ascii_strings recode analysis) = None"
      using ascii_strings_graded(2) by blast+
  next
    assume "string_not_ascii analysis \<noteq> None \<and> string_not_ascii analysis \<noteq> Some []
        \<and> error_of (check_cff_ascii_strings recode analysis) = None"
    then show "graded (check_cff_ascii_strings recode analysis) =
          [(FAIL, Some ''cff-string-not-in-ascii-range'')]"
      by (rule ascii)
  next
    assume "concat (map direction_glyph od) \<noteq> []"
    then show "graded (check_outline_direction ttFont od config) = [(WARN, Some ''ccw-outer-contour'')]"
      and "error_of (check_outline_direction ttFont od config) = None"
      using direction_graded(2) by blast+
  qed (erule os2_metrics_match_hhea_emits vertical_metrics_emits linegaps_emits typoascender_emits
         caps_emits alignment_miss_emits short_segments_emits colinear_emits jaggy_emits
         equal_codepoint_coverage_emits tnum_emits ascii_strings_graded(1) direction_graded(1))+
qed

lemma example_bar_alignment:
  "check_outline_alignment_miss example_font example_bar_outlines [] =
     ([(PASS, Plain [Lit ''Y-coordinates of points fell on appropriate boundaries.''])], None)"
  by (simp add: check_outline_alignment_miss_def example_font_def example_os2_def
       example_bar_outlines_def alignment_glyph_def alignment_node_def alignment_line_def
       is_caps_name_def close_but_not_on_def ALIGNMENT_MISS_EPSILON_def FALSE_POSITIVE_CUTOFF_def)

lemma example_bar_short_segments:
  "check_outline_short_segments example_font example_bar_outlines [] =
     ([(PASS, Plain [Lit ''No short segments were found.''])], None)"
  by (simp add: check_outline_short_segments_def example_bar_outlines_def short_segments_glyph_def
        short_segments_path_def isclose_def SHORT_PATH_ABSOLUTE_EPSILON_def SHORT_PATH_EPSILON_def
        FALSE_POSITIVE_CUTOFF_def)

lemma example_bar_colinear:
  "error_of (check_outline_colinear_vectors (\<lambda>v. 0) example_font example_bar_outlines []) = None"
  by (simp add: check_outline_colinear_vectors_def example_bar_outlines_def colinear_glyph_def
        colinear_path_def prev_this_def COLINEAR_EPSILON_def FALSE_POSITIVE_CUTOFF_def)

lemma example_bar_jaggy:
  "error_of (check_outline_jaggy_segments (\<lambda>r. []) example_font example_bar_outlines []) = None"
  by (simp add: check_outline_jaggy_segments_def example_font_def Let_def)

lemma example_bar_direction:
  "concat (map direction_glyph example_bar_outlines) =
     [''I (U+0049) has a counter-clockwise outer contour'']"
  by (simp add: direction_glyph_def example_bar_outlines_def is_within_def)

lemma example_ring_direction: "concat (map direction_glyph example_ring_outlines) = []"
proof -
  have u: "[0..<2] = [0, 1]" by (simp add: upt_rec)
  have "direction_glyph (hd example_ring_outlines) = []"
    by (simp add: direction_glyph_def example_ring_outlines_def is_within_def
          bounds_contains_def u Let_def)
  then show ?thesis by (simp add: example_ring_outlines_def)
qed

theorem check_bodies_emit_witness:
  "outcomes_of (check_os2_metrics_match_hhea example_font) \<noteq> []
   \<and> outcomes_of (check_family_vertical_metrics [example_font\<lparr>tbl_OS2 := None\<rparr>]) \<noteq> []
   \<and> outcomes_of (check_linegaps example_font) \<noteq> []
   \<and> outcomes_of (fst (check_typoascender_exceeds_Agrave example_heap 0)) \<noteq> []
   \<and> outcomes_of (fst (check_caps_vertically_centered example_heap 0)) \<noteq> []
   \<and> outcomes_of (check_outline_alignment_miss example_font example_bar_outlines []) \<noteq> []
   \<and> outcomes_of (check_outline_short_segments example_font example_bar_outlines []) \<noteq> []
   \<and> outcomes_of (check_outline_colinear_vectors (\<lambda>v. 0) example_font example_bar_outlines [])
       \<noteq> []
   \<and> outcomes_of (check_outline_jaggy_segments (\<lambda>r. []) example_font example_bar_outlines [])
       \<noteq> []
   \<and> outcomes_of (com_google_fonts_check_family_equal_codepoint_coverage
                    (\<lambda>n. Some (basename n)) (\<lambda>ks S. filter (\<lambda>k. k \<notin> S) ks)
                    [example_font\<lparr>tbl_OS2 := None\<rparr>] []) \<noteq> []
   \<and> outcomes_of (com_google_fonts_check_family_tnum_horizontal_metrics
                    [example_font\<lparr>tbl_OS2 := None\<rparr>]) \<noteq> []
   \<and> check_cff_ascii_strings (\<lambda>s. Some s) CFFAnalysis_init = ([], None)
   \<and> graded (check_cff_ascii_strings (\<lambda>s. Some s) (CFFAnalysis_init\<lparr>string_not_ascii := None\<rparr>))
       = [(FAIL, Some ''cff-unable-to-decode'')]
   \<and> graded (check_cff_ascii_strings (\<lambda>s. Some s)
        (CFFAnalysis_init\<lparr>string_not_ascii := Some [(''Notice'', [CHR 0xA9])]\<rparr>))
       = [(FAIL, Some ''cff-string-not-in-ascii-range'')]
   \<and> check_outline_direction example_font example_ring_outlines [] = ([], None)
   \<and> graded (check_outline_direction example_font example_bar_outlines [])
       = [(WARN, Some ''ccw-outer-contour'')]"
proof -
  let ?lacking = "example_font\<lparr>tbl_OS2 := None\<rparr>"
  let ?undecoded = "CFFAnalysis_init\<lparr>string_not_ascii := None\<rparr>"
  let ?notice = "CFFAnalysis_init\<lparr>string_not_ascii := Some [(''Notice'', [CHR 0xA9])]\<rparr>"
  have e1: "error_of (check_os2_metrics_match_hhea example_font) = None"
    by (simp add: check_os2_metrics_match_hhea_def has_table_def example_font_def example_os2_def)
  have e2: "error_of (check_family_vertical_metrics [?lacking]) = None"
    by (simp add: check_family_vertical_metrics_def)
  have e3: "error_of (check_linegaps example_font) = None"
    unfolding check_linegaps_def Let_def linegaps_missing_tables
    by (simp add: example_font_def example_os2_def)
  have e4: "error_of (fst (check_typoascender_exceeds_Agrave example_heap 0)) = None"
    by (simp add: example_typoascender_run)
  have e5: "error_of (fst (check_caps_vertically_centered example_heap 0)) = None"
    by (simp add: check_caps_vertically_centered_def deepcopy_def draw_def example_heap_def
        example_font_def example_glyph_def SOME_UPPERCASE_GLYPHS_def py_truediv_def)
  have e6: "error_of (check_outline_alignment_miss example_font example_bar_outlines []) = None"
    by (simp add: example_bar_alignment)
  have e7: "error_of (check_outline_short_segments example_font example_bar_outlines []) = None"
    by (simp add: example_bar_short_segments)
  note e8 = example_bar_colinear
  note e9 = example_bar_jaggy
  have e10: "error_of (com_google_fonts_check_family_equal_codepoint_coverage
                    (\<lambda>n. Some (basename n)) (\<lambda>ks S. filter (\<lambda>k. k \<notin> S) ks) [?lacking] []) = None"
    by (simp add: com_google_fonts_check_family_equal_codepoint_coverage_def example_font_def)
  have e11: "error_of (com_google_fonts_check_family_tnum_horizontal_metrics [?lacking]) = None"
    by (simp add: com_google_fonts_check_family_tnum_horizontal_metrics_def tnum_glyphs_def
          example_font_def SOME_UPPERCASE_GLYPHS_def endswith_def)
  have a1: "string_not_ascii CFFAnalysis_init = Some []" by (simp add: CFFAnalysis_init_def)
  have a2: "string_not_ascii ?undecoded = None" by simp
  have a3: "string_not_ascii ?notice \<noteq> None \<and> string_not_ascii ?notice \<noteq> Some []
            \<and> error_of (check_cff_ascii_strings (\<lambda>s. Some s) ?notice) = None"
    by (simp add: check_cff_ascii_strings_def)
  have d1: "concat (map direction_glyph example_ring_outlines) = []"
    by (rule example_ring_direction)
  have d2: "concat (map direction_glyph example_bar_outlines) \<noteq> []"
    by (simp add: example_bar_direction)
  note T1 = check_bodies_emit
              [where ttFont = example_font and ttFonts = "[?lacking]" and h = example_heap
                 and a = 0 and od = example_bar_outlines and config = "[]"
                 and angle_of = "\<lambda>v. 0" and str_float = "\<lambda>r. []"
                 and canonical_stylename = "\<lambda>n. Some (basename n)"
                 and residue_order = "\<lambda>ks S. filter (\<lambda>k. k \<notin> S) ks"
                 and analysis = CFFAnalysis_init and recode = "\<lambda>s. Some s"]
  note T2 = check_bodies_emit
              [where ttFont = example_font and od = example_ring_outlines and config = "[]"
                 and analysis = ?undecoded and recode = "\<lambda>s. Some s"]
  note T3 = check_bodies_emit [where analysis = ?notice and recode = "\<lambda>s. Some s"]
  from T1 e1 e2 e3 e4 e5 e6 e7 e8 e9 e10 e11 a1 d2
  have "outcomes_of (check_os2_metrics_match_hhea example_font) \<noteq> []"
    and "outcomes_of (check_family_vertical_metrics [?lacking]) \<noteq> []"
    and "outcomes_of (check_linegaps example_font) \<noteq> []"
    and "outcomes_of (fst (check_typoascender_exceeds_Agrave example_heap 0)) \<noteq> []"
    and "outcomes_of (fst (check_caps_vertically_centered example_heap 0)) \<noteq> []"
    and "outcomes_of (check_outline_alignment_miss example_font example_bar_outlines []) \<noteq> []"
    and "outcomes_of (check_outline_short_segments example_font example_bar_outlines []) \<noteq> []"
    and "outcomes_of (check_outline_colinear_vectors (\<lambda>v. 0) example_font example_bar_outlines [])
       \<noteq> []"
    and "outcomes_of (check_outline_jaggy_segments (\<lambda>r. []) example_font example_bar_outlines [])
       \<noteq> []"
    and "outcomes_of (com_google_fonts_check_family_equal_codepoint_coverage
                    (\<lambda>n. Some (basename n)) (\<lambda>ks S. filter (\<lambda>k. k \<notin> S) ks) [?lacking] []) \<noteq> []"
    and "outcomes_of (com_google_fonts_check_family_tnum_horizontal_metrics [?lacking]) \<noteq> []"
    and "check_cff_ascii_strings (\<lambda>s. Some s) CFFAnalysis_init = ([], None)"
    and "graded (check_outline_direction example_font example_bar_outlines [])
       = [(WARN, Some ''ccw-outer-contour'')]"
    by blast+
  moreover from T2 a2 d1
  have "graded (check_cff_ascii_strings (\<lambda>s. Some s) ?undecoded)
       = [(FAIL, Some ''cff-unable-to-decode'')]"
    and "check_outline_direction example_font example_ring_outlines [] = ([], None)"
    by blast+
  moreover from T3 a3
  have "graded (check_cff_ascii_strings (\<lambda>s. Some s) ?notice)
       = [(FAIL, Some ''cff-string-not-in-ascii-range'')]"
    by blast
  ultimately show ?thesis by blast
qed

text \<open>
  The claim as it is written fails for the three checks it names: on an analysis with
  nothing to report, and on a glyph whose outer contour is clockwise, they yield no
  outcome at all and end without an exception.
\<close>

theorem silent_checks_counterexample:
  "check_cff_call_depth CFFAnalysis_init = ([], None)
   \<and> check_cff_deprecated_operators CFFAnalysis_init = ([], None)
   \<and> check_outline_direction example_font example_ring_outlines [] = ([], None)"
proof -
  have u: "[0..<2] = [0, 1]" by (simp add: upt_rec)
  have w: "direction_glyph (hd example_ring_outlines) = []"
    by (simp add: direction_glyph_def example_ring_outlines_def is_within_def
          bounds_contains_def u Let_def)
  have "concat (map direction_glyph example_ring_outlines) = []"
    using w by (simp add: example_ring_outlines_def)
  then have "check_outline_direction example_font example_ring_outlines [] = ([], None)"
    by (simp add: check_outline_direction_def)
  moreover have "check_cff_call_depth CFFAnalysis_init = ([], None)"
    by (simp add: check_cff_call_depth_def call_depth_outcomes_def CFFAnalysis_init_def)
  moreover have "check_cff_deprecated_operators CFFAnalysis_init = ([], None)"
    by (simp add: check_cff_deprecated_operators_def CFFAnalysis_init_def)
  ultimately show ?thesis by blast
qed

subsection \<open>Equal inputs give equal runs\<close>










lemma draw_fail_heap: "fst (draw h c g) = Inl e \<Longrightarrow> snd (draw h c g) = h"
  by (simp add: draw_def split: option.splits)









end
